theory Spec2Isabelle
  imports Main
begin

section \<open>Values, script entries and configuration\<close>

text \<open>
  Values of the build script (parsed JSON) and of action attributes. Floating point
  numbers are left out.
\<close>

datatype pyval =
    PNone
  | PBool bool
  | PInt int
  | PStr string
  | PList "pyval list"

text \<open>Python's truth test, as used by \<^verbatim>\<open>if self.build:\<close>.\<close>

fun truthy :: "pyval \<Rightarrow> bool" where
  "truthy PNone = False"
| "truthy (PBool b) = b"
| "truthy (PInt i) = (i \<noteq> 0)"
| "truthy (PStr s) = (s \<noteq> [])"
| "truthy (PList xs) = (xs \<noteq> [])"

text \<open>
  The \<^verbatim>\<open>"action"\<close> object of a step: \<^verbatim>\<open>module\<close> is required, the other keys are
  optional (\<open>None\<close> when the key is absent). \<^verbatim>\<open>meta_updates\<close> is kept in iteration order.
\<close>

record action_desc =
  module :: string
  args :: "(string \<rightharpoonup> pyval) option"
  meta :: "string list option"
  meta_updates :: "(string \<times> string) list option"

record step =
  desc :: "string option"
  enabled :: "pyval option"
  allow_failure :: "pyval option"
  action :: action_desc

text \<open>
  The fields of \<^verbatim>\<open>ProjectConfig\<close> that the two source files read or assign.
  \<^verbatim>\<open>script\<close> holds the step groups of the loaded script by name, \<open>None\<close> when no
  script is loaded.
\<close>

record config =
  script :: "(string \<rightharpoonup> step list) option"
  UE4EnginePath :: string
  UE4EngineKeyName :: string
  UE4GitDependenciesPath :: string
  UE4UBTPath :: string
  UE4GenProjFilesPath :: string
  UE4RunUATBatPath :: string
  git_repo :: string
  git_proj_branch :: string
  engine_path_name :: string
  uproject_dir_path :: string
  uproject_name :: string
  uproject_file_path :: string
  builds_path :: string
  editor_running :: bool
  exclude_samples :: bool
  extra_dependency_excludes :: "string list"
  clean :: bool
  build_engine_tools :: "string list"
  version_str :: string
  configuration :: string

section \<open>Observable events and the state of a run\<close>

text \<open>
  Every call that leaves the program, and every call into an action, is appended to a
  trace. The answers of the outside world (file tests, exit codes, prompts) are
  functions of the trace so far. What an action causes while the runner calls it is
  recorded under \<open>ByAction\<close>, so that it cannot be taken for a call of the runner.
\<close>

datatype event =
    PrintAction string
  | PrintWarning string
  | Echo string
  | ImportModule string
  | Construct string nat config "string \<rightharpoonup> pyval"
  | CallVerify string
  | CallRun string
  | SaveMeta
  | Launch string "string list"
  | Isfile string
  | PathExists string
  | Makedirs string
  | Unlink string
  | Rmtree string
  | Copyfile string string
  | Confirm string
  | Prompt string
  | SetupEnginePaths string
  | GitRun string string string
  | RegisterEngine
  | BuildRun string
  | CheckEnvironment
  | Pause
  | ByAction event

text \<open>
  How a function ends: it returns, it calls \<^verbatim>\<open>error_exit\<close>, it calls
  \<^verbatim>\<open>sys.exit\<close>, or an exception leaves it.

  Modelled from the spec: \<^verbatim>\<open>error_exit\<close> (utility/common.py is not among the
  sources) prints its message and ends the process with a non-zero status, so nothing
  after the call runs.
\<close>

datatype outcome =
    Returned
  | ErrorExit string
  | SysExit int
  | Raised string

text \<open>How one pass of the loop body ends: on to the next step, or out of the function.\<close>

datatype flow = Next | Leave outcome

text \<open>
  Configuration objects live in a store, addressed by position: the driver holds the
  address of its configuration, \<^verbatim>\<open>deepcopy\<close> allocates a new object.
  \<open>build_meta\<close> holds the keys of the metadata object, \<open>meta_file\<close> what was last
  written to disk.

  Modelled from the spec: \<^verbatim>\<open>ProjectConfig\<close> (config.py is not among the sources)
  is plain data, so that a deep copy of it is a new object with an equal value.
\<close>

record rstate =
  heap :: "config list"
  build_meta :: "string \<rightharpoonup> pyval"
  meta_file :: "string \<rightharpoonup> pyval"
  trace :: "event list"

definition emit :: "event list \<Rightarrow> rstate \<Rightarrow> rstate" where
  "emit evs st = st\<lparr>trace := trace st @ evs\<rparr>"

definition cfg :: "nat \<Rightarrow> rstate \<Rightarrow> config" where
  "cfg a st = heap st ! a"

definition set_cfg :: "nat \<Rightarrow> config \<Rightarrow> rstate \<Rightarrow> rstate" where
  "set_cfg a c st = st\<lparr>heap := (heap st)[a := c]\<rparr>"

definition deepcopy :: "nat \<Rightarrow> rstate \<Rightarrow> nat \<times> rstate" where
  "deepcopy a st = (length (heap st), st\<lparr>heap := heap st @ [cfg a st]\<rparr>)"

text \<open>The constructor calls of a trace: the address and the value of the object handed over.\<close>

fun constructions :: "event list \<Rightarrow> (nat \<times> config) list" where
  "constructions [] = []"
| "constructions (Construct cn a' c kw # es) = (a', c) # constructions es"
| "constructions (e # es) = constructions es"

section \<open>The action contract\<close>

text \<open>
  An action class, as the runner uses it: the constructor, \<^verbatim>\<open>verify\<close>,
  \<^verbatim>\<open>run\<close>, the \<^verbatim>\<open>error\<close> attribute and attribute lookup. An operation gets the
  instance, the configuration object the instance holds and the trace so far; it gives
  back its result (\<open>Inl\<close> an exception), the instance and that configuration object as
  it leaves them, and the events it caused.
\<close>

type_synonym ('b, 'r) action_op =
  "'b \<Rightarrow> config \<Rightarrow> event list \<Rightarrow> (string + 'r) \<times> 'b \<times> config \<times> event list"

record 'b action_class =
  ac_init :: "config \<Rightarrow> (string \<rightharpoonup> pyval) \<Rightarrow> event list \<Rightarrow> (string + 'b) \<times> config \<times> event list"
  ac_verify :: "('b, string) action_op"
  ac_run :: "('b, bool) action_op"
  ac_error :: "'b \<Rightarrow> string"
  ac_getattr :: "'b \<Rightarrow> string \<Rightarrow> pyval option"

text \<open>
  \<^verbatim>\<open>importlib.import_module\<close>: \<open>None\<close> when the module cannot be imported,
  otherwise the classes of the module by attribute name.
\<close>

type_synonym 'b modules = "string \<Rightarrow> (string \<rightharpoonup> 'b action_class) option"

section \<open>String helpers\<close>

text \<open>\<^verbatim>\<open>str.split\<close> on one separator character.\<close>

fun split_on :: "char \<Rightarrow> string \<Rightarrow> string list" where
  "split_on d [] = [[]]"
| "split_on d (c # cs) =
     (if c = d then [] # split_on d cs
      else (case split_on d cs of
              [] \<Rightarrow> [[c]]
            | w # ws \<Rightarrow> (c # w) # ws))"

definition lower_chars :: string where
  "lower_chars = ''abcdefghijklmnopqrstuvwxyz''"

definition upper_chars :: string where
  "upper_chars = ''ABCDEFGHIJKLMNOPQRSTUVWXYZ''"

definition to_upper :: "char \<Rightarrow> char" where
  "to_upper c = (case map_of (zip lower_chars upper_chars) c of None \<Rightarrow> c | Some u \<Rightarrow> u)"

definition to_lower :: "char \<Rightarrow> char" where
  "to_lower c = (case map_of (zip upper_chars lower_chars) c of None \<Rightarrow> c | Some l \<Rightarrow> l)"

definition is_cased :: "char \<Rightarrow> bool" where
  "is_cased c = (c \<in> set lower_chars \<or> c \<in> set upper_chars)"

text \<open>
  \<^verbatim>\<open>str.title\<close> on ASCII text: a letter after a letter is lowered, any other
  letter is raised.
\<close>

fun title_from :: "bool \<Rightarrow> string \<Rightarrow> string" where
  "title_from prev [] = []"
| "title_from prev (c # cs) =
     (if prev then to_lower c else to_upper c) # title_from (is_cased c) cs"

definition title :: "string \<Rightarrow> string" where
  "title s = title_from False s"

definition class_name :: "string \<Rightarrow> string" where
  "class_name m = title (last (split_on CHR ''.'' m))"

section \<open>The metadata object\<close>

text \<open>
  Modelled from the spec: \<^verbatim>\<open>BuildMeta.collect_meta\<close> (build_meta.py is not among the
  sources). It is the projection of the store on the requested keys and fails when a
  key is absent, naming the key.
\<close>

definition collect_meta :: "(string \<rightharpoonup> pyval) \<Rightarrow> string list \<Rightarrow> string + (string \<rightharpoonup> pyval)" where
  "collect_meta m ks =
     (case find (\<lambda>k. m k = None) ks of
        Some k \<Rightarrow> Inl k
      | None \<Rightarrow> Inr (m |` set ks))"

text \<open>
  Modelled from the spec: \<^verbatim>\<open>BuildMeta.save_meta\<close> (build_meta.py is not among the
  sources). It overwrites the persisted snapshot with the current store.
\<close>

definition save_meta :: "rstate \<Rightarrow> rstate" where
  "save_meta st = st\<lparr>meta_file := build_meta st, trace := trace st @ [SaveMeta]\<rparr>"

section \<open>The step runner\<close>

text \<open>Lines 281 to 287 of \<^verbatim>\<open>run_build_steps\<close>: the keyword arguments of the action.\<close>

definition build_kwargs :: "(string \<rightharpoonup> pyval) \<Rightarrow> action_desc \<Rightarrow> string + (string \<rightharpoonup> pyval)" where
  "build_kwargs store act =
     (case (case meta act of
              None \<Rightarrow> Inr Map.empty
            | Some ks \<Rightarrow> collect_meta store ks) of
        Inl e \<Rightarrow> Inl e
      | Inr kw \<Rightarrow> Inr (case args act of None \<Rightarrow> kw | Some am \<Rightarrow> kw ++ am))"

definition disabled :: "step \<Rightarrow> bool" where
  "disabled s = (enabled s = Some (PBool False))"

text \<open>Line 271: what is printed for a step.\<close>

definition step_desc :: "step \<Rightarrow> string" where
  "step_desc s = (case desc s of None \<Rightarrow> ''Performing Undescribed step'' | Some d \<Rightarrow> d)"

definition allows_failure :: "step \<Rightarrow> bool" where
  "allows_failure s = (allow_failure s = Some (PBool True))"

text \<open>
  Lines 268 to 287: one pass of the loop body up to the keyword arguments. \<open>Inl\<close> is
  a pass that ends here, \<open>Inr\<close> the class, its name and the keyword arguments.
\<close>

definition prepare_step ::
  "'b modules \<Rightarrow> step \<Rightarrow> rstate
     \<Rightarrow> (flow \<times> rstate) + ('b action_class \<times> string \<times> (string \<rightharpoonup> pyval) \<times> rstate)" where
  "prepare_step mods s st =
     (if disabled s then Inl (Next, st)
      else
        (let st1 = emit [PrintAction (step_desc s), ImportModule (module (action s))] st;
             cn = class_name (module (action s))
         in case mods (module (action s)) of
              None \<Rightarrow> Inl (Leave (Raised (''No module named '' @ module (action s))), st1)
            | Some md \<Rightarrow>
               (case md cn of
                  None \<Rightarrow> Inl (Next, emit [PrintWarning (''action class ('' @ cn @ '') could not be found!'')] st1)
                | Some cls \<Rightarrow>
                   (case build_kwargs (build_meta st1) (action s) of
                      Inl e \<Rightarrow> Inl (Leave (Raised e), st1)
                    | Inr kw \<Rightarrow> Inr (cls, cn, kw, st1)))))"

text \<open>
  Line 291: the class is called with a deep copy of the driver's configuration
  (the object at address \<open>a\<close>) and the keyword arguments. The result holds the
  address of the copy.
\<close>

definition construct_action ::
  "'b action_class \<Rightarrow> string \<Rightarrow> nat \<Rightarrow> (string \<rightharpoonup> pyval) \<Rightarrow> rstate \<Rightarrow> (string + 'b) \<times> nat \<times> rstate" where
  "construct_action cls cn a kw st0 =
     (case deepcopy a st0 of (a', st1) \<Rightarrow>
        (let ev = Construct cn a' (cfg a' st1) kw
         in case ac_init cls (cfg a' st1) kw (trace st1 @ [ev]) of
              (rb, c', evs) \<Rightarrow> (rb, a', emit (ev # map ByAction evs) (set_cfg a' c' st1))))"

text \<open>A call of an operation on the instance whose configuration object is at address \<open>a'\<close>.\<close>

definition call_method ::
  "('b, 'r) action_op \<Rightarrow> 'b \<Rightarrow> nat \<Rightarrow> rstate \<Rightarrow> (string + 'r) \<times> 'b \<times> rstate" where
  "call_method f b a' st =
     (case f b (cfg a' st) (trace st) of
        (r, b', c', evs) \<Rightarrow> (r, b', emit (map ByAction evs) (set_cfg a' c' st)))"

definition verify_action ::
  "'b action_class \<Rightarrow> string \<Rightarrow> 'b \<Rightarrow> nat \<Rightarrow> rstate \<Rightarrow> (string + string) \<times> 'b \<times> rstate" where
  "verify_action cls cn b a' st = call_method (ac_verify cls) b a' (emit [CallVerify cn] st)"

definition run_call ::
  "'b action_class \<Rightarrow> string \<Rightarrow> 'b \<Rightarrow> nat \<Rightarrow> rstate \<Rightarrow> (string + bool) \<times> 'b \<times> rstate" where
  "run_call cls cn b a' st = call_method (ac_run cls) b a' (emit [CallRun cn] st)"

text \<open>Lines 310 to 315: the meta updates of a step, then the save.\<close>

definition meta_update ::
  "'b action_class \<Rightarrow> 'b \<Rightarrow> string \<times> string \<Rightarrow> (string \<rightharpoonup> pyval) \<Rightarrow> (string \<rightharpoonup> pyval)" where
  "meta_update cls b kv m =
     (case ac_getattr cls b (snd kv) of
        None \<Rightarrow> m
      | Some meta_item \<Rightarrow> if meta_item \<noteq> PNone then m(fst kv \<mapsto> meta_item) else m)"

definition do_meta_updates :: "'b action_class \<Rightarrow> 'b \<Rightarrow> action_desc \<Rightarrow> rstate \<Rightarrow> rstate" where
  "do_meta_updates cls b act st =
     (case meta_updates act of
        None \<Rightarrow> st
      | Some ups \<Rightarrow>
          save_meta (st\<lparr>build_meta := foldl (\<lambda>m kv. meta_update cls b kv m) (build_meta st) ups\<rparr>))"

text \<open>
  Lines 292 to 315: the instance \<open>b\<close>, whose configuration is the object at address
  \<open>a'\<close>, is verified and run, and its outputs are written to the store.
\<close>

definition verify_and_run ::
  "'b action_class \<Rightarrow> string \<Rightarrow> step \<Rightarrow> 'b \<Rightarrow> nat \<Rightarrow> rstate \<Rightarrow> flow \<times> rstate" where
  "verify_and_run cls cn s b a' st2 =
     (case verify_action cls cn b a' st2 of
        (Inl e, b1, st3) \<Rightarrow> (Leave (Raised e), st3)
      | (Inr verify_error, b1, st3) \<Rightarrow>
         if verify_error \<noteq> [] then
           (if allows_failure s then
              (Leave Returned,
               emit [PrintWarning verify_error,
                     PrintWarning ''Verification of this action failed. Skipping because of allow_failure flag.''] st3)
            else (Leave (ErrorExit verify_error), st3))
         else
           (case run_call cls cn b1 a' st3 of
              (Inl e, b2, st4) \<Rightarrow> (Leave (Raised e), st4)
            | (Inr ok, b2, st4) \<Rightarrow>
               if \<not> ok then
                 (if allows_failure s then
                    (Leave Returned,
                     emit [PrintWarning (ac_error cls b2),
                           PrintWarning ''Running of this action failed. Skipping because of allow_failure flag.''] st4)
                  else (Leave (ErrorExit (ac_error cls b2)), st4))
               else (Next, do_meta_updates cls b2 (action s) st4)))"

text \<open>Lines 289 to 315: the action is built, verified and run.\<close>

definition run_action ::
  "'b action_class \<Rightarrow> string \<Rightarrow> nat \<Rightarrow> step \<Rightarrow> (string \<rightharpoonup> pyval) \<Rightarrow> rstate \<Rightarrow> flow \<times> rstate" where
  "run_action cls cn a s kw st1 =
     (case construct_action cls cn a kw st1 of
        (Inl e, a', st2) \<Rightarrow> (Leave (Raised e), st2)
      | (Inr b, a', st2) \<Rightarrow> verify_and_run cls cn s b a' st2)"

text \<open>One pass of the loop body, lines 268 to 315.\<close>

definition run_step :: "'b modules \<Rightarrow> nat \<Rightarrow> step \<Rightarrow> rstate \<Rightarrow> flow \<times> rstate" where
  "run_step mods a s st =
     (case prepare_step mods s st of
        Inl r \<Rightarrow> r
      | Inr (cls, cn, kw, st1) \<Rightarrow> run_action cls cn a s kw st1)"

text \<open>The \<^verbatim>\<open>for step in steps\<close> loop.\<close>

fun run_steps :: "'b modules \<Rightarrow> nat \<Rightarrow> step list \<Rightarrow> rstate \<Rightarrow> flow \<times> rstate" where
  "run_steps mods a [] st = (Next, st)"
| "run_steps mods a (s # ss) st =
     (case run_step mods a s st of
        (Next, st') \<Rightarrow> run_steps mods a ss st'
      | (Leave out, st') \<Rightarrow> (Leave out, st'))"

text \<open>\<^verbatim>\<open>run_build_steps\<close>: the configuration is the object at address \<open>a\<close>.\<close>

definition run_build_steps ::
  "'b modules \<Rightarrow> nat \<Rightarrow> string \<Rightarrow> bool \<Rightarrow> rstate \<Rightarrow> outcome \<times> rstate" where
  "run_build_steps mods a steps_name complain_missing_step st =
     (case script (cfg a st) of
        None \<Rightarrow> (Returned, emit [PrintWarning ''Script json not loaded for run_build_steps!''] st)
      | Some sc \<Rightarrow>
         (case sc steps_name of
            Some steps \<Rightarrow>
              (case run_steps mods a steps st of
                 (Next, st') \<Rightarrow> (Returned, st')
               | (Leave out, st') \<Rightarrow> (out, st'))
          | None \<Rightarrow>
              if complain_missing_step
              then (Returned, emit [PrintWarning (''Could not find build step ('' @ steps_name @ '') for run_build_steps!'')] st)
              else (Returned, st)))"

section \<open>The packaging action\<close>

text \<open>
  What the two source files ask of the operating system and of the modules that are
  not among the sources (config.py, utility/common.py, actions/git.py,
  actions/build.py). Each answer may depend on the trace so far.

  \<^verbatim>\<open>config.check_environment()\<close> answers with a truth value and with the
  configuration as it leaves it.
\<close>

record git_action =
  branch_name :: string
  repo_name :: string
  output_folder :: string
  disable_strict_hostkey_check :: bool
  force_repull :: bool

record os_env =
  check_environment :: "event list \<Rightarrow> config \<Rightarrow> bool \<times> config"
  isfile :: "event list \<Rightarrow> string \<Rightarrow> bool"
  path_exists :: "event list \<Rightarrow> string \<Rightarrow> bool"
  makedirs_ok :: "event list \<Rightarrow> string \<Rightarrow> bool"
  launch :: "event list \<Rightarrow> string \<Rightarrow> string list \<Rightarrow> int"
  path_join :: "string \<Rightarrow> string \<Rightarrow> string"
  abspath :: "string \<Rightarrow> string"
  normpath :: "string \<Rightarrow> string"
  isabs :: "string \<Rightarrow> bool"
  confirm :: "event list \<Rightarrow> string \<Rightarrow> bool"
  prompt :: "event list \<Rightarrow> string \<Rightarrow> string"
  setup_engine_paths :: "event list \<Rightarrow> config \<Rightarrow> string \<Rightarrow> bool \<times> config"
  git_run :: "event list \<Rightarrow> config \<Rightarrow> git_action \<Rightarrow> bool \<times> string \<times> config"
  register_project_engine :: "event list \<Rightarrow> config \<Rightarrow> config"
  build_run :: "event list \<Rightarrow> config \<Rightarrow> string \<Rightarrow> bool \<times> string \<times> config"
  get_visual_studio_version :: "event list \<Rightarrow> int"
  py_str :: "pyval \<Rightarrow> string"

definition backslash :: string where
  "backslash = [CHR 0x5C]"

definition dquote :: string where
  "dquote = [CHR 0x22]"

definition newline :: string where
  "newline = [CHR 0x0A]"

text \<open>
  The attributes that \<^verbatim>\<open>Package.__init__\<close> sets, each holding the value of the
  keyword argument as it came. \<open>maps_arg\<close> is the attribute \<^verbatim>\<open>maps\<close>.

  Modelled from the spec: the base class \<^verbatim>\<open>Action\<close> (actions/action.py is not
  among the sources) keeps the configuration it is given and starts with an empty
  \<^verbatim>\<open>error\<close> string.
\<close>

record package_action =
  pak_assets :: pyval
  nativize_assets :: pyval
  compressed_assets :: pyval
  no_debug_info :: pyval
  full_rebuild :: pyval
  no_editor_content :: pyval
  ignore_cook_errors :: pyval
  use_debug_editor_cmd :: pyval
  build_type :: pyval
  maps_arg :: pyval
  build :: pyval
  cook :: pyval
  package :: pyval
  stage :: pyval
  archive :: pyval
  content_black_list :: pyval
  error :: string

definition kwarg :: "(string \<rightharpoonup> pyval) \<Rightarrow> string \<Rightarrow> pyval \<Rightarrow> pyval" where
  "kwarg kw k d = (case kw k of None \<Rightarrow> d | Some v \<Rightarrow> v)"

definition Package_init :: "(string \<rightharpoonup> pyval) \<Rightarrow> package_action" where
  "Package_init kw =
     \<lparr>pak_assets = kwarg kw ''pak_assets'' (PBool True),
      nativize_assets = kwarg kw ''nativize_assets'' (PBool True),
      compressed_assets = kwarg kw ''compressed_assets'' (PBool True),
      no_debug_info = kwarg kw ''no_debug_info'' (PBool False),
      full_rebuild = kwarg kw ''full_rebuild'' (PBool False),
      no_editor_content = kwarg kw ''no_editor_content'' (PBool False),
      ignore_cook_errors = kwarg kw ''ignore_cook_errors'' (PBool False),
      use_debug_editor_cmd = kwarg kw ''use_debug_editor_cmd'' (PBool False),
      build_type = kwarg kw ''build_type'' (PStr []),
      maps_arg = kwarg kw ''maps'' (PList []),
      build = kwarg kw ''build'' (PBool True),
      cook = kwarg kw ''cook'' (PBool True),
      package = kwarg kw ''package'' (PBool True),
      stage = kwarg kw ''stage'' (PBool True),
      archive = kwarg kw ''archive'' (PBool True),
      content_black_list = kwarg kw ''content_black_list'' (PStr []),
      error = []\<rparr>"

definition valid_build_types :: "pyval list" where
  "valid_build_types = [PStr ''standalone'', PStr ''client'', PStr ''server'']"

text \<open>\<^verbatim>\<open>Package.verify\<close>, lines 51 to 61.\<close>

definition Package_verify :: "os_env \<Rightarrow> (package_action, string) action_op" where
  "Package_verify env p c h =
     (case check_environment env h c of
        (ok, c1) \<Rightarrow>
          if \<not> ok
          then (Inr ''Environment is not ready for building or packaging!'', p, c1, [CheckEnvironment])
          else if build_type p \<notin> set valid_build_types
          then (Inr [], p\<lparr>build_type := PStr ''standalone''\<rparr>, c1,
                [CheckEnvironment,
                 PrintWarning (''Unrecognized build type ('' @ py_str env (build_type p)
                   @ '') for package. Defaulting to '' @ dquote @ ''standalone'' @ dquote @ ''.''
                   @ newline @ ''Valid types='' @ py_str env (PList valid_build_types))])
          else (Inr [], p, c1, [CheckEnvironment]))"

text \<open>\<^verbatim>\<open>str.join\<close>.\<close>

fun join :: "string \<Rightarrow> string list \<Rightarrow> string" where
  "join sep [] = []"
| "join sep [x] = x"
| "join sep (x # y # ys) = x @ sep @ join sep (y # ys)"

fun str_of :: "pyval \<Rightarrow> string option" where
  "str_of (PStr s) = Some s"
| "str_of v = None"

text \<open>
  Lines 142 and 143: \<^verbatim>\<open>len\<close> raises on a value without a length, \<^verbatim>\<open>join\<close>
  on an element that is not a string; a string is joined character by character.
\<close>

fun map_args :: "pyval \<Rightarrow> string + string list" where
  "map_args (PList xs) =
     (if xs = [] then Inr []
      else if list_all (\<lambda>x. str_of x \<noteq> None) xs
      then Inr [''-map='' @ join ''+'' (map (\<lambda>x. the (str_of x)) xs)]
      else Inl ''TypeError: sequence item: expected str instance'')"
| "map_args (PStr s) =
     (if s = [] then Inr [] else Inr [''-map='' @ join ''+'' (map (\<lambda>ch. [ch]) s)])"
| "map_args v = Inl ''TypeError: object has no len()''"

definition flag :: "bool \<Rightarrow> string list \<Rightarrow> string list" where
  "flag b xs = (if b then xs else [])"

text \<open>Lines 101 to 150: the argument vector, up to the exception of line 142.\<close>

definition Package_cmd_args :: "package_action \<Rightarrow> config \<Rightarrow> string + string list" where
  "Package_cmd_args p c =
     (case map_args (maps_arg p) of
        Inl e \<Rightarrow> Inl e
      | Inr ma \<Rightarrow> Inr (
          [''-ScriptsForProject='' @ uproject_file_path c,
           ''BuildCookRun'', ''-nocompileeditor'', ''-NoHotReload'', ''-nop4'',
           ''-project='' @ uproject_file_path c,
           ''-archivedirectory='' @ builds_path c,
           ''-clientconfig='' @ configuration c,
           ''-serverconfig='' @ configuration c,
           ''-ue4exe='' @ (if truthy (use_debug_editor_cmd p)
                          then ''UE4Editor-Win64-Debug-Cmd.exe'' else ''UE4Editor-Cmd.exe''),
           ''-prereqs'', ''-targetplatform=Win64'', ''-platform=Win64'',
           ''-servertargetplatform=Win64'', ''-serverplatform=Win64'',
           ''-CrashReporter'', ''-utf8output'']
          @ flag (truthy (build p)) [''-build'']
          @ flag (truthy (cook p)) [''-cook'']
          @ flag (truthy (package p)) [''-package'']
          @ flag (truthy (stage p)) [''-stage'']
          @ flag (truthy (archive p)) [''-archive'']
          @ (if build_type p = PStr ''client'' then [''-client'']
             else if build_type p = PStr ''server'' then [''-server'', ''-noclient'']
             else [])
          @ flag (truthy (nativize_assets p)) [''-nativizeAssets'']
          @ flag (truthy (pak_assets p) \<and> truthy (stage p)) [''-pak'']
          @ flag (truthy (compressed_assets p)) [''-compressed'']
          @ flag (truthy (no_debug_info p)) [''-nodebuginfo'']
          @ flag (truthy (no_editor_content p)) [''-SkipCookingEditorContent'']
          @ flag (truthy (ignore_cook_errors p)) [''-IgnoreCookErrors'']
          @ ma
          @ (if clean c \<or> truthy (full_rebuild p) then [''-clean'']
             else [''-iterate'', ''-iterativecooking''])
          @ [''-compile'']))"

text \<open>Lines 70 to 85: the build directory is removed when cleaning.\<close>

definition clean_events :: "os_env \<Rightarrow> package_action \<Rightarrow> config \<Rightarrow> event list" where
  "clean_events env p c =
     (if clean c then
        [Rmtree (path_join env (builds_path c)
           (if build_type p = PStr ''client'' then ''WindowsClient''
            else if build_type p = PStr ''server'' then ''WindowsServer''
            else ''WindowsNoEditor''))]
      else [])"

definition build_blacklist_dir :: string where
  "build_blacklist_dir = ''Build'' @ backslash @ ''Win64''"

definition build_blacklist_file_path :: "os_env \<Rightarrow> config \<Rightarrow> string" where
  "build_blacklist_file_path env c =
     path_join env (path_join env (uproject_dir_path c) build_blacklist_dir)
       (''PakBlacklist-'' @ configuration c @ ''.txt'')"

text \<open>
  Lines 93 to 99: the content blacklist is copied into place. Joining a path with a
  value that is not a string raises.
\<close>

definition blacklist_setup ::
  "os_env \<Rightarrow> package_action \<Rightarrow> config \<Rightarrow> event list \<Rightarrow> string option \<times> event list" where
  "blacklist_setup env p c h =
     (if content_black_list p \<noteq> PStr [] then
        (let path = build_blacklist_file_path env c;
             ev1 = [PrintAction (''Setting up content blacklist for configuration '' @ configuration c),
                    Isfile path];
             ev2 = ev1 @ (if isfile env (h @ ev1) path then [Unlink path] else [])
                       @ [Makedirs (path_join env (uproject_dir_path c) build_blacklist_dir)]
         in case str_of (content_black_list p) of
              None \<Rightarrow> (Some ''TypeError: expected str, bytes or os.PathLike object'', ev2)
            | Some bl \<Rightarrow> (None, ev2 @ [Copyfile (path_join env (uproject_dir_path c) bl) path]))
      else (None, []))"

text \<open>Lines 152 to 161: the external process is launched with the argument vector.\<close>

definition launch_package ::
  "os_env \<Rightarrow> package_action \<Rightarrow> config \<Rightarrow> event list \<Rightarrow> string list
     \<Rightarrow> (string + bool) \<times> package_action \<times> config \<times> event list" where
  "launch_package env p c h cmd_args =
     (let ev = [PrintAction (''Building, Cooking, and Packaging '' @ title (uproject_name c) @ '' Build''),
                Launch (UE4RunUATBatPath c) cmd_args]
      in if launch env (h @ ev) (UE4RunUATBatPath c) cmd_args \<noteq> 0
         then (Inr False, p\<lparr>error := ''Unable to build '' @ uproject_name c @ ''!''\<rparr>, c, ev)
         else (let path = build_blacklist_file_path env c
               in (Inr True, p, c,
                   ev @ [Isfile path]
                      @ (if isfile env (h @ ev @ [Isfile path]) path then [Unlink path] else []))))"

text \<open>\<^verbatim>\<open>Package.run\<close>, lines 63 to 161.\<close>

definition Package_run :: "os_env \<Rightarrow> (package_action, bool) action_op" where
  "Package_run env p c h =
     (case Package_verify env p c h of
        (Inl e, p1, c1, ev1) \<Rightarrow> (Inl e, p1, c1, ev1)
      | (Inr verr, p1, c1, ev1) \<Rightarrow>
         (let p2 = p1\<lparr>error := verr\<rparr>
          in if verr \<noteq> [] then (Inr False, p2, c1, ev1)
             else
               (let ev2 = ev1 @ [Echo (''Building for client version '' @ version_str c1)]
                            @ clean_events env p2 c1
                            @ [PrintAction (''Building '' @ title (uproject_name c1) @ '' Build'')]
                in case blacklist_setup env p2 c1 (h @ ev2) of
                     (Some e, ev3) \<Rightarrow> (Inl e, p2, c1, ev2 @ ev3)
                   | (None, ev3) \<Rightarrow>
                      (case Package_cmd_args p2 c1 of
                         Inl e \<Rightarrow> (Inl e, p2, c1, ev2 @ ev3)
                       | Inr cmd_args \<Rightarrow>
                          (case launch_package env p2 c1 (h @ ev2 @ ev3) cmd_args of
                             (r, p3, c3, ev4) \<Rightarrow> (r, p3, c3, ev2 @ ev3 @ ev4))))))"

section \<open>The engine bootstrap\<close>

text \<open>\<^verbatim>\<open>config.setup_engine_paths(path)\<close> on the driver's configuration.\<close>

definition do_setup :: "os_env \<Rightarrow> nat \<Rightarrow> string \<Rightarrow> rstate \<Rightarrow> bool \<times> rstate" where
  "do_setup env a path st =
     (case setup_engine_paths env (trace st) (cfg a st) path of
        (ok, c') \<Rightarrow> (ok, emit [SetupEnginePaths path] (set_cfg a c' st)))"

text \<open>
  Lines 181 to 186 and 199 to 204: the directory is created when it does not exist,
  then the engine paths are set.
\<close>

definition make_engine_dir :: "os_env \<Rightarrow> nat \<Rightarrow> string \<Rightarrow> rstate \<Rightarrow> outcome \<times> rstate" where
  "make_engine_dir env a path st =
     (let st1 = emit [PathExists path] st
      in if \<not> path_exists env (trace st) path then
           (if makedirs_ok env (trace st1) path
            then (Returned, snd (do_setup env a path (emit [Makedirs path] st1)))
            else (ErrorExit (''Unable to create engine directory! Tried @ '' @ path),
                  emit [Makedirs path] st1))
         else (Returned, snd (do_setup env a path st1)))"

text \<open>Lines 170 to 206: an engine path is settled on.\<close>

definition engine_path_stage ::
  "os_env \<Rightarrow> nat \<Rightarrow> string \<Rightarrow> bool \<Rightarrow> rstate \<Rightarrow> outcome \<times> rstate" where
  "engine_path_stage env a engine_override can_pull_engine st =
     (let c = cfg a st in
      if UE4EnginePath c = [] then
        (if \<not> can_pull_engine \<and> engine_override = [] then
           (ErrorExit (''Static engine placement required for non-git pulled engine. ''
                       @ ''You can specify a path using the -e param, or specify git configuration.''), st)
         else if engine_override \<noteq> [] then
           (Returned, snd (do_setup env a (abspath env engine_override) st))
         else
           (let q = ''Would you like to specify the location of the engine install?'';
                st1 = emit [Confirm q] st
            in if confirm env (trace st) q then
                 (let w = ''Where would you like to install the engine?''
                  in make_engine_dir env a (prompt env (trace st1) w) (emit [Prompt w] st1))
               else
                 make_engine_dir env a
                   (if engine_path_name c = [] then
                      abspath env (path_join env (uproject_dir_path c)
                        (''..'' @ backslash @ ''UnrealEngine_'' @ uproject_name c))
                    else if isabs env (engine_path_name c) then engine_path_name c
                    else normpath env (path_join env (uproject_dir_path c) (engine_path_name c)))
                   st1))
      else if UE4EnginePath c \<noteq> engine_override \<and> engine_override \<noteq> [] then
        (ErrorExit ''Specific engine path requested, but engine path for this project already exists?'', st)
      else (Returned, st))"

text \<open>Lines 209 to 225: the engine is pulled, its paths are set and it is registered.\<close>

definition engine_pull_stage ::
  "os_env \<Rightarrow> nat \<Rightarrow> string \<Rightarrow> bool \<Rightarrow> rstate \<Rightarrow> outcome \<times> rstate" where
  "engine_pull_stage env a engine_override can_pull_engine st =
     (case (if can_pull_engine then
              (let c = cfg a st;
                   g = \<lparr>branch_name = git_proj_branch c, repo_name = git_repo c,
                        output_folder = UE4EnginePath c,
                        disable_strict_hostkey_check = True, force_repull = False\<rparr>
               in case git_run env (trace st) c g of
                    (ok, err, c') \<Rightarrow>
                      (if ok then Returned else ErrorExit err,
                       emit [GitRun (repo_name g) (branch_name g) (output_folder g)] (set_cfg a c' st)))
            else (Returned, st)) of
        (Returned, st1) \<Rightarrow>
          (case do_setup env a engine_override st1 of
             (ok, st2) \<Rightarrow>
               if \<not> ok then (ErrorExit ''Could not setup valid engine paths!'', st2)
               else if UE4EngineKeyName (cfg a st2) \<noteq> [] then
                 (Returned,
                  emit [RegisterEngine]
                    (set_cfg a (register_project_engine env (trace st2) (cfg a st2)) st2))
               else (Returned, st2))
      | (out, st1) \<Rightarrow> (out, st1))"

text \<open>Lines 227 to 249: the dependencies are synchronised and the build tool is built.\<close>

definition engine_deps_stage :: "os_env \<Rightarrow> nat \<Rightarrow> rstate \<Rightarrow> outcome \<times> rstate" where
  "engine_deps_stage env a st =
     (let c = cfg a st in
      if \<not> editor_running c then
        (let st1 = emit [PrintAction ''Checking engine dependencies up-to-date''] st;
             cmd_args =
               (if exclude_samples c
                then map (\<lambda>path_name. ''-exclude='' @ path_name) [''FeaturePacks'', ''Samples'', ''Templates'']
                else [])
               @ map (\<lambda>path_name. ''-exclude='' @ path_name) (extra_dependency_excludes c);
             st2 = emit [Launch (UE4GitDependenciesPath c) cmd_args] st1
         in if launch env (trace st1) (UE4GitDependenciesPath c) cmd_args \<noteq> 0
            then (ErrorExit ''Engine dependencies Failed to Sync!'', st2)
            else
              (let st3 = emit [Isfile (UE4UBTPath c)] st2
               in if \<not> isfile env (trace st2) (UE4UBTPath c) then
                    (let gen_args = (if get_visual_studio_version env (trace st3) = 2017
                                     then [''-2017''] else []);
                         st4 = emit [PrintAction ''Build tool doesn't exist yet, generating project and building...'',
                                     Launch (UE4GenProjFilesPath c) gen_args] st3
                     in if launch env (trace st3) (UE4GenProjFilesPath c) gen_args \<noteq> 0
                        then (ErrorExit ''Failed to build UnrealBuildTool.exe!'', st4)
                        else (Returned, st4))
                  else (Returned, st3)))
      else (Returned, st))"

text \<open>\<^verbatim>\<open>ensure_engine\<close>: the driver's configuration is the object at address \<open>a\<close>.\<close>

definition ensure_engine :: "os_env \<Rightarrow> nat \<Rightarrow> string \<Rightarrow> rstate \<Rightarrow> outcome \<times> rstate" where
  "ensure_engine env a engine_override st =
     (let can_pull_engine = (git_repo (cfg a st) \<noteq> [] \<and> git_proj_branch (cfg a st) \<noteq> [])
      in case engine_path_stage env a engine_override can_pull_engine st of
           (Returned, st1) \<Rightarrow>
             (case engine_pull_stage env a engine_override can_pull_engine st1 of
                (Returned, st2) \<Rightarrow> engine_deps_stage env a st2
              | (out, st2) \<Rightarrow> (out, st2))
         | (out, st1) \<Rightarrow> (out, st1))"

section \<open>The driver\<close>

text \<open>What follows a call in the driver runs when the call returns, and only then.\<close>

definition and_then ::
  "outcome \<times> rstate \<Rightarrow> (rstate \<Rightarrow> outcome \<times> rstate) \<Rightarrow> outcome \<times> rstate" where
  "and_then r k = (case r of (Returned, st) \<Rightarrow> k st | (out, st) \<Rightarrow> (out, st))"

text \<open>
  \<^verbatim>\<open>b = Build(config, build_name=name)\<close>, then \<^verbatim>\<open>error_exit(b.error)\<close> unless
  \<^verbatim>\<open>b.run()\<close>. The action works on the driver's own configuration object.
\<close>

definition engine_build :: "os_env \<Rightarrow> nat \<Rightarrow> string \<Rightarrow> rstate \<Rightarrow> outcome \<times> rstate" where
  "engine_build env a name st =
     (case build_run env (trace st) (cfg a st) name of
        (ok, err, c') \<Rightarrow>
          (if ok then Returned else ErrorExit err, emit [BuildRun name] (set_cfg a c' st)))"

text \<open>Lines 119 to 128: the editor is built unless it is running.\<close>

definition editor_build :: "os_env \<Rightarrow> nat \<Rightarrow> string \<Rightarrow> rstate \<Rightarrow> outcome \<times> rstate" where
  "editor_build env a buildtype st =
     (if \<not> editor_running (cfg a st) then
        (let clean_revert = clean (cfg a st);
             st1 = (if buildtype = ''Package'' then set_cfg a ((cfg a st)\<lparr>clean := False\<rparr>) st else st)
         in and_then (engine_build env a ''UE4Editor'' st1)
              (\<lambda>st2. (Returned, set_cfg a ((cfg a st2)\<lparr>clean := clean_revert\<rparr>) st2)))
      else (Returned, emit [PrintWarning ''Skipping engine build because engine is running!''] st))"

text \<open>\<^verbatim>\<open>package = Package(config)\<close>, then \<^verbatim>\<open>error_exit(package.error)\<close> unless it runs.\<close>

definition default_package :: "os_env \<Rightarrow> nat \<Rightarrow> rstate \<Rightarrow> outcome \<times> rstate" where
  "default_package env a st =
     (case call_method (Package_run env) (Package_init Map.empty) a st of
        (Inl e, p, st') \<Rightarrow> (Raised e, st')
      | (Inr ok, p, st') \<Rightarrow> (if ok then Returned else ErrorExit (error p), st'))"

text \<open>Lines 132 to 153: the step group of the build type.\<close>

definition main_steps ::
  "'b modules \<Rightarrow> os_env \<Rightarrow> nat \<Rightarrow> string \<Rightarrow> rstate \<Rightarrow> outcome \<times> rstate" where
  "main_steps mods env a buildtype st =
     (if buildtype = ''Editor'' then
        (if editor_running (cfg a st) then
           (SysExit 1, emit [PrintWarning ''Cannot build the Editor while the editor is running!'', Pause] st)
         else
           (case script (cfg a st) of
              None \<Rightarrow> (Raised ''TypeError: argument of type NoneType is not iterable'', st)
            | Some sc \<Rightarrow>
                if sc ''game_editor_steps'' \<noteq> None then run_build_steps mods a ''game_editor_steps'' False st
                else if sc ''editor_steps'' \<noteq> None then run_build_steps mods a ''editor_steps'' False st
                else engine_build env a (uproject_name (cfg a st) @ ''Editor'') st))
      else if buildtype = ''Package'' then
        (case script (cfg a st) of
           None \<Rightarrow> (Raised ''TypeError: argument of type NoneType is not iterable'', st)
         | Some sc \<Rightarrow>
             if sc ''package_steps'' \<noteq> None then run_build_steps mods a ''package_steps'' False st
             else default_package env a st)
      else (Returned, st))"

text \<open>Lines 157 to 159: the metadata is saved and success is reported.\<close>

definition finish :: "rstate \<Rightarrow> outcome \<times> rstate" where
  "finish st = (Returned, emit [PrintAction ''SUCCESS!'', Pause] (save_meta st))"

text \<open>
  Lines 114 to 159 of \<^verbatim>\<open>build_script\<close>: the step groups in their order.
  \<open>build_arg\<close> is the parameter \<^verbatim>\<open>build\<close>.
\<close>

definition build_script_steps ::
  "'b modules \<Rightarrow> os_env \<Rightarrow> nat \<Rightarrow> string \<Rightarrow> string \<Rightarrow> rstate \<Rightarrow> outcome \<times> rstate" where
  "build_script_steps mods env a build_arg buildtype st =
     and_then
       (if build_arg \<noteq> [] then run_build_steps mods a build_arg True st
        else
          and_then (editor_build env a buildtype st) (\<lambda>st1.
          and_then (run_build_steps mods a ''pre_build_steps'' False st1) (\<lambda>st2.
          and_then (main_steps mods env a buildtype st2) (\<lambda>st3.
          run_build_steps mods a ''post_build_steps'' False st3))))
       finish"

section \<open>Sample inputs\<close>

text \<open>
  A small action class for the examples: the instance is its keyword arguments, which
  are also its attributes; \<^verbatim>\<open>verify\<close> answers \<open>verr\<close> and sets a field of the
  configuration it holds; \<^verbatim>\<open>run\<close> launches a tool and answers \<open>ok\<close>.
\<close>

definition demo_class :: "string \<Rightarrow> bool \<Rightarrow> (string \<rightharpoonup> pyval) action_class" where
  "demo_class verr ok =
     \<lparr>ac_init = (\<lambda>c kw h. (Inr kw, c, [])),
      ac_verify = (\<lambda>b c h. (Inr verr, b, c\<lparr>clean := True\<rparr>, [])),
      ac_run = (\<lambda>b c h. (Inr ok, b, c, [Launch ''tool'' []])),
      ac_error = (\<lambda>b. ''tool failed''),
      ac_getattr = (\<lambda>b k. b k)\<rparr>"

definition demo_modules :: "(string \<rightharpoonup> pyval) modules" where
  "demo_modules m =
     (if m = ''actions.good'' then Some [''Good'' \<mapsto> demo_class [] True]
      else if m = ''actions.badverify'' then Some [''Badverify'' \<mapsto> demo_class ''not ready'' True]
      else if m = ''actions.badrun'' then Some [''Badrun'' \<mapsto> demo_class [] False]
      else if m = ''actions.noclass'' then Some Map.empty
      else None)"

definition demo_step :: "string \<Rightarrow> step" where
  "demo_step m =
     \<lparr>desc = None, enabled = None, allow_failure = None,
      action = \<lparr>module = m, args = None, meta = None, meta_updates = None\<rparr>\<rparr>"

definition demo_config :: "(string \<rightharpoonup> step list) option \<Rightarrow> config" where
  "demo_config scr =
     \<lparr>script = scr, UE4EnginePath = ''C:/UE4'', UE4EngineKeyName = [],
      UE4GitDependenciesPath = ''C:/UE4/GitDependencies.exe'',
      UE4UBTPath = ''C:/UE4/UnrealBuildTool.exe'',
      UE4GenProjFilesPath = ''C:/UE4/GenerateProjectFiles.bat'',
      UE4RunUATBatPath = ''C:/UE4/RunUAT.bat'',
      git_repo = [], git_proj_branch = [], engine_path_name = [],
      uproject_dir_path = ''C:/proj'', uproject_name = ''game'',
      uproject_file_path = ''C:/proj/game.uproject'', builds_path = ''C:/proj/builds'',
      editor_running = False, exclude_samples = True, extra_dependency_excludes = [],
      clean = False, build_engine_tools = [], version_str = ''1.0'',
      configuration = ''Development''\<rparr>"

definition demo_state :: "config \<Rightarrow> rstate" where
  "demo_state c = \<lparr>heap = [c], build_meta = Map.empty, meta_file = Map.empty, trace = []\<rparr>"

definition demo_env :: os_env where
  "demo_env =
     \<lparr>check_environment = (\<lambda>h c. (True, c)), isfile = (\<lambda>h f. True), path_exists = (\<lambda>h f. True),
      makedirs_ok = (\<lambda>h f. True), launch = (\<lambda>h exe cmd. 0),
      path_join = (\<lambda>x y. x @ ''/'' @ y), abspath = (\<lambda>x. x), normpath = (\<lambda>x. x),
      isabs = (\<lambda>x. True), confirm = (\<lambda>h q. False), prompt = (\<lambda>h q. ''C:/UE4''),
      setup_engine_paths = (\<lambda>h c f. (True, c)), git_run = (\<lambda>h c g. (True, [], c)),
      register_project_engine = (\<lambda>h c. c), build_run = (\<lambda>h c n. (True, [], c)),
      get_visual_studio_version = (\<lambda>h. 2017),
      py_str = (\<lambda>v. case v of PStr s \<Rightarrow> s | _ \<Rightarrow> ''?'')\<rparr>"

definition disabled_good_step :: step where
  "disabled_good_step = (demo_step ''actions.good'')\<lparr>enabled := Some (PBool False)\<rparr>"

definition no_script_state :: rstate where
  "no_script_state = demo_state (demo_config None)"

definition no_engine_state :: rstate where
  "no_engine_state = demo_state ((demo_config None)\<lparr>UE4EnginePath := []\<rparr>)"

definition editor_running_state :: rstate where
  "editor_running_state = demo_state ((demo_config None)\<lparr>editor_running := True\<rparr>)"

definition noclass_state :: rstate where
  "noclass_state =
     demo_state (demo_config (Some [''pre_build_steps'' \<mapsto>
       [demo_step ''actions.noclass'', demo_step ''actions.good'']]))"

definition noclass_warned_state :: rstate where
  "noclass_warned_state =
     emit [PrintAction ''Performing Undescribed step'', ImportModule ''actions.noclass'',
           PrintWarning ''action class (Noclass) could not be found!''] no_script_state"

text \<open>A group whose first step fails verification and allows failure.\<close>

definition badverify_allowed :: step where
  "badverify_allowed = (demo_step ''actions.badverify'')\<lparr>allow_failure := Some (PBool True)\<rparr>"

definition allow_state :: rstate where
  "allow_state =
     demo_state (demo_config (Some
       [''pre_build_steps'' \<mapsto> [badverify_allowed, demo_step ''actions.good''],
        ''post_build_steps'' \<mapsto> [demo_step ''actions.good'']]))"

text \<open>
  A step with requested metadata and a static argument for the same key; its two inputs
  are read back as outputs.
\<close>

definition override_step :: step where
  "override_step =
     (demo_step ''actions.good'')\<lparr>action :=
        \<lparr>module = ''actions.good'', args = Some [''level'' \<mapsto> PInt 2],
         meta = Some [''level'', ''mode''],
         meta_updates = Some [(''seen_level'', ''level''), (''seen_mode'', ''mode'')]\<rparr>\<rparr>"

definition override_state :: rstate where
  "override_state =
     (demo_state (demo_config None))\<lparr>build_meta := [''level'' \<mapsto> PInt 1, ''mode'' \<mapsto> PStr ''fast'']\<rparr>"

definition override_state1 :: rstate where
  "override_state1 =
     emit [PrintAction ''Performing Undescribed step'', ImportModule ''actions.good''] override_state"

definition override_kwargs :: "string \<rightharpoonup> pyval" where
  "override_kwargs = (build_meta override_state |` set [''level'', ''mode'']) ++ [''level'' \<mapsto> PInt 2]"

text \<open>
  Four groups: the first step fails in \<^verbatim>\<open>verify\<close> or in \<^verbatim>\<open>run\<close>, with and
  without \<^verbatim>\<open>allow_failure\<close>.
\<close>

definition badrun_allowed :: step where
  "badrun_allowed = (demo_step ''actions.badrun'')\<lparr>allow_failure := Some (PBool True)\<rparr>"

definition policy_script :: "string \<rightharpoonup> step list" where
  "policy_script =
     [''verify_allowed'' \<mapsto> [badverify_allowed, demo_step ''actions.good''],
      ''verify_fatal'' \<mapsto> [demo_step ''actions.badverify'', demo_step ''actions.good''],
      ''run_allowed'' \<mapsto> [badrun_allowed, demo_step ''actions.good''],
      ''run_fatal'' \<mapsto> [demo_step ''actions.badrun'', demo_step ''actions.good'']]"

definition policy_state :: rstate where
  "policy_state = demo_state (demo_config (Some policy_script))"

definition policy_state1 :: "string \<Rightarrow> rstate" where
  "policy_state1 m = emit [PrintAction ''Performing Undescribed step'', ImportModule m] policy_state"

text \<open>Two steps whose actions set a field of the configuration they hold.\<close>

definition two_good_steps :: "step list" where
  "two_good_steps = [demo_step ''actions.good'', demo_step ''actions.good'']"

text \<open>
  A step that succeeds, has the output \<^verbatim>\<open>barAttr\<close> with value 42 and maps it to the
  metadata key \<^verbatim>\<open>foo\<close>.
\<close>

definition output_step :: step where
  "output_step =
     (demo_step ''actions.good'')\<lparr>action :=
        \<lparr>module = ''actions.good'', args = Some [''barAttr'' \<mapsto> PInt 42],
         meta = None, meta_updates = Some [(''foo'', ''barAttr'')]\<rparr>\<rparr>"

definition output_kwargs :: "string \<rightharpoonup> pyval" where
  "output_kwargs = [''barAttr'' \<mapsto> PInt 42]"

definition output_state1 :: rstate where
  "output_state1 =
     emit [PrintAction ''Performing Undescribed step'', ImportModule ''actions.good''] no_script_state"

definition output_state2 :: rstate where
  "output_state2 = snd (snd (construct_action (demo_class [] True) ''Good'' 0 output_kwargs output_state1))"

definition output_state3 :: rstate where
  "output_state3 = snd (snd (verify_action (demo_class [] True) ''Good'' output_kwargs 1 output_state2))"

definition output_state4 :: rstate where
  "output_state4 = snd (snd (run_call (demo_class [] True) ''Good'' output_kwargs 1 output_state3))"

text \<open>
  A step whose output \<^verbatim>\<open>barAttr\<close> is \<^verbatim>\<open>None\<close> and which has no attribute
  \<^verbatim>\<open>missingAttr\<close>, run on a store that holds 1 under \<^verbatim>\<open>foo\<close>.
\<close>

definition null_output_step :: step where
  "null_output_step =
     (demo_step ''actions.good'')\<lparr>action :=
        \<lparr>module = ''actions.good'', args = Some [''barAttr'' \<mapsto> PNone],
         meta = None, meta_updates = Some [(''foo'', ''barAttr''), (''baz'', ''missingAttr'')]\<rparr>\<rparr>"

definition seeded_state :: rstate where
  "seeded_state = (demo_state (demo_config None))\<lparr>build_meta := [''foo'' \<mapsto> PInt 1]\<rparr>"

text \<open>A packaging action with default arguments, and one with two toggles changed.\<close>

definition default_package_action :: package_action where
  "default_package_action = Package_init Map.empty"

definition toggled_package_action :: package_action where
  "toggled_package_action =
     Package_init [''build'' \<mapsto> PBool False, ''full_rebuild'' \<mapsto> PBool True,
                   ''build_type'' \<mapsto> PStr ''client'']"

definition plain_config :: config where
  "plain_config = demo_config None"

definition toggled_cmd_args :: "string list" where
  "toggled_cmd_args =
     [''-ScriptsForProject=C:/proj/game.uproject'', ''BuildCookRun'', ''-nocompileeditor'',
      ''-NoHotReload'', ''-nop4'', ''-project=C:/proj/game.uproject'',
      ''-archivedirectory=C:/proj/builds'', ''-clientconfig=Development'',
      ''-serverconfig=Development'', ''-ue4exe=UE4Editor-Cmd.exe'', ''-prereqs'',
      ''-targetplatform=Win64'', ''-platform=Win64'', ''-servertargetplatform=Win64'',
      ''-serverplatform=Win64'', ''-CrashReporter'', ''-utf8output'',
      ''-cook'', ''-package'', ''-stage'', ''-archive'', ''-client'', ''-nativizeAssets'',
      ''-pak'', ''-compressed'', ''-clean'', ''-compile'']"

text \<open>A packaging action of a valid build type, and an environment whose check fails.\<close>

definition client_package_action :: package_action where
  "client_package_action = Package_init [''build_type'' \<mapsto> PStr ''client'']"

definition failing_env :: os_env where
  "failing_env = demo_env\<lparr>check_environment := (\<lambda>h c. (False, c))\<rparr>"

section \<open>Evaluation of the examples\<close>

lemmas string_defs = class_name_def title_def to_upper_def to_lower_def is_cased_def
  lower_chars_def upper_chars_def

lemmas runner_defs = run_build_steps_def run_step_def prepare_step_def run_action_def
  construct_action_def verify_and_run_def verify_action_def run_call_def call_method_def
  deepcopy_def
  do_meta_updates_def meta_update_def save_meta_def build_kwargs_def collect_meta_def
  disabled_def allows_failure_def step_desc_def emit_def cfg_def set_cfg_def

lemmas demo_defs = demo_class_def demo_modules_def demo_step_def demo_config_def
  demo_state_def demo_env_def

section \<open>Facts about the state\<close>

lemma heap_emit [simp]: "heap (emit evs st) = heap st"
  by (simp add: emit_def)

lemma build_meta_emit [simp]: "build_meta (emit evs st) = build_meta st"
  by (simp add: emit_def)

lemma trace_emit [simp]: "trace (emit evs st) = trace st @ evs"
  by (simp add: emit_def)

lemma heap_save_meta [simp]: "heap (save_meta st) = heap st"
  by (simp add: save_meta_def)

lemma heap_do_meta_updates [simp]: "heap (do_meta_updates cls b act st) = heap st"
  by (simp add: do_meta_updates_def split: option.splits)

lemma and_then_Returned [simp]: "and_then (Returned, st) k = k st"
  by (simp add: and_then_def)

lemma and_then_ErrorExit [simp]: "and_then (ErrorExit m, st) k = (ErrorExit m, st)"
  by (simp add: and_then_def)

text \<open>A prefix of the step list that runs through hands its state to the rest.\<close>

lemma run_steps_append_Next:
  "run_steps mods a pre st0 = (Next, st) \<Longrightarrow>
   run_steps mods a (pre @ ys) st0 = run_steps mods a ys st"
  by (induction pre arbitrary: st0) (auto split: prod.splits flow.splits)

lemma run_build_steps_group:
  "script (cfg a st0) = Some sc \<Longrightarrow> sc steps_name = Some steps \<Longrightarrow>
   run_build_steps mods a steps_name complain st0 =
     (case run_steps mods a steps st0 of
        (Next, st') \<Rightarrow> (Returned, st')
      | (Leave out, st') \<Rightarrow> (out, st'))"
  by (simp add: run_build_steps_def)

lemma build_kwargs_shape:
  "build_kwargs store act = Inr kw \<Longrightarrow>
   \<exists>km. (case meta act of None \<Rightarrow> km = Map.empty | Some ks \<Rightarrow> collect_meta store ks = Inr km) \<and>
        kw = km ++ (case args act of None \<Rightarrow> Map.empty | Some am \<Rightarrow> am)"
  by (auto simp: build_kwargs_def split: option.splits sum.splits)

lemma prepare_step_kwargs:
  "prepare_step mods s st = Inr (cls, cn, kw, st1) \<Longrightarrow>
   build_kwargs (build_meta st) (action s) = Inr kw \<and>
   st1 = emit [PrintAction (step_desc s), ImportModule (module (action s))] st \<and>
   cn = class_name (module (action s)) \<and> \<not> disabled s \<and>
   (\<exists>md. mods (module (action s)) = Some md \<and> md cn = Some cls)"
  by (auto simp: prepare_step_def Let_def emit_def split: if_splits option.splits sum.splits)

text \<open>The constructor is applied to the value of the driver's configuration.\<close>

lemma construct_action_init:
  "a < length (heap st1) \<Longrightarrow>
   construct_action cls cn a kw st1 =
     (case ac_init cls (cfg a st1) kw (trace st1 @ [Construct cn (length (heap st1)) (cfg a st1) kw]) of
        (rb, c', evs) \<Rightarrow>
          (rb, length (heap st1),
           st1\<lparr>heap := heap st1 @ [c'],
               trace := trace st1 @ Construct cn (length (heap st1)) (cfg a st1) kw
                          # map ByAction evs\<rparr>))"
  by (simp add: construct_action_def deepcopy_def cfg_def set_cfg_def emit_def nth_append
      split: prod.splits)

section \<open>Disabled steps\<close>

text \<open>
  C5. A step whose descriptor has \<^verbatim>\<open>enabled\<close> set to false is skipped with no effect:
  the pass over it leaves the whole state as it was, trace included, so no module is
  imported, no action is constructed and neither \<^verbatim>\<open>verify\<close> nor \<^verbatim>\<open>run\<close> is
  called; a step list behaves as the list without the step.
\<close>

theorem disabled_step_skipped:
  "disabled s \<Longrightarrow>
     run_step mods a s st = (Next, st) \<and>
     run_steps mods a (xs @ s # ys) st = run_steps mods a (xs @ ys) st"
proof -
  assume d: "disabled s"
  have one: "\<And>st'. run_step mods a s st' = (Next, st')"
    using d by (simp add: run_step_def prepare_step_def)
  have "run_steps mods a (xs @ s # ys) st = run_steps mods a (xs @ ys) st"
    by (induction xs arbitrary: st) (auto simp: one split: prod.splits flow.splits)
  with one show ?thesis by simp
qed

theorem disabled_step_skipped_witness:
  "disabled disabled_good_step \<and>
   run_step demo_modules 0 disabled_good_step no_script_state = (Next, no_script_state) \<and>
   run_steps demo_modules 0 ([demo_step ''actions.good''] @ disabled_good_step # []) no_script_state
     = run_steps demo_modules 0 ([demo_step ''actions.good''] @ []) no_script_state"
  using disabled_step_skipped [of disabled_good_step demo_modules 0 no_script_state
      "[demo_step ''actions.good'']" "[]"]
  by (simp add: disabled_def disabled_good_step_def demo_step_def)

section \<open>Unknown action kinds\<close>

text \<open>
  C1, as the code has it. The claim says that an unknown action kind always ends the
  run with an error. In the code a step whose module is imported but holds no class of
  the expected name is skipped with a warning, and the later steps of the group run:
  here the second step is verified and run after the first one was skipped, and the
  group returns.
\<close>

theorem unknown_action_class_counterexample:
  "fst (run_build_steps demo_modules 0 ''pre_build_steps'' False noclass_state) = Returned \<and>
   PrintWarning ''action class (Noclass) could not be found!''
     \<in> set (trace (snd (run_build_steps demo_modules 0 ''pre_build_steps'' False noclass_state))) \<and>
   CallRun ''Good''
     \<in> set (trace (snd (run_build_steps demo_modules 0 ''pre_build_steps'' False noclass_state)))"
  by (simp add: runner_defs string_defs demo_defs noclass_state_def)

text \<open>
  C1, amended. An enabled step whose module cannot be imported ends the loop with the
  import error, before anything is constructed and without a later step being looked
  at. An enabled step whose module is imported but has no class of the title-cased
  name causes a warning, constructs nothing, and the loop goes on with the remaining
  steps.
\<close>

theorem unknown_action_class:
  "\<not> disabled s \<Longrightarrow>
   (mods (module (action s)) = None \<longrightarrow>
      run_steps mods a (s # rest) st =
        (Leave (Raised (''No module named '' @ module (action s))),
         emit [PrintAction (step_desc s), ImportModule (module (action s))] st)) \<and>
   (\<forall>md. mods (module (action s)) = Some md \<and> md (class_name (module (action s))) = None \<longrightarrow>
      run_steps mods a (s # rest) st =
        run_steps mods a rest
          (emit [PrintAction (step_desc s), ImportModule (module (action s)),
                 PrintWarning (''action class ('' @ class_name (module (action s)) @ '') could not be found!'')] st))"
  by (auto simp: run_step_def prepare_step_def emit_def Let_def)

theorem unknown_action_class_witness:
  "run_steps demo_modules 0 [demo_step ''actions.noclass'', demo_step ''actions.good''] no_script_state =
     run_steps demo_modules 0 [demo_step ''actions.good''] noclass_warned_state \<and>
   run_steps demo_modules 0 [demo_step ''actions.missing'', demo_step ''actions.good''] no_script_state =
     (Leave (Raised ''No module named actions.missing''),
      emit [PrintAction ''Performing Undescribed step'', ImportModule ''actions.missing''] no_script_state)"
proof -
  have d1: "\<not> disabled (demo_step ''actions.noclass'')"
    by (simp add: disabled_def demo_step_def)
  have d2: "\<not> disabled (demo_step ''actions.missing'')"
    by (simp add: disabled_def demo_step_def)
  from unknown_action_class [OF d1, of demo_modules 0 "[demo_step ''actions.good'']" no_script_state]
       unknown_action_class [OF d2, of demo_modules 0 "[demo_step ''actions.good'']" no_script_state]
  show ?thesis
    by (simp add: demo_modules_def demo_step_def step_desc_def string_defs noclass_warned_state_def)
qed

section \<open>The engine bootstrap\<close>

text \<open>
  C7. With no engine path known, no git repository or no branch configured, and no
  override path given, \<^verbatim>\<open>ensure_engine\<close> ends with \<^verbatim>\<open>error_exit\<close> at once: the
  state is the one it started from, so nothing was synchronised or launched.
\<close>

theorem no_engine_source_fails_first:
  "UE4EnginePath (cfg a st) = [] \<Longrightarrow>
   git_repo (cfg a st) = [] \<or> git_proj_branch (cfg a st) = [] \<Longrightarrow>
   ensure_engine env a [] st =
     (ErrorExit (''Static engine placement required for non-git pulled engine. ''
                 @ ''You can specify a path using the -e param, or specify git configuration.''), st)"
  by (auto simp: ensure_engine_def engine_path_stage_def Let_def)

theorem no_engine_source_fails_first_witness:
  "UE4EnginePath (cfg 0 no_engine_state) = [] \<and>
   git_repo (cfg 0 no_engine_state) = [] \<and>
   ensure_engine demo_env 0 [] no_engine_state =
     (ErrorExit (''Static engine placement required for non-git pulled engine. ''
                 @ ''You can specify a path using the -e param, or specify git configuration.''),
      no_engine_state)"
  using no_engine_source_fails_first [of 0 no_engine_state demo_env]
  by (simp add: cfg_def no_engine_state_def demo_state_def demo_config_def)

text \<open>
  C8. When the path and pull stages have returned and the configuration then says
  that the editor is running, the dependency stage does nothing (no synchronisation is
  launched, the build tool is not looked for and not generated) and
  \<^verbatim>\<open>ensure_engine\<close> returns normally in the state those stages left.
\<close>

theorem editor_running_skips_dependencies:
  "engine_path_stage env a engine_override
      (git_repo (cfg a st) \<noteq> [] \<and> git_proj_branch (cfg a st) \<noteq> []) st = (Returned, st1) \<Longrightarrow>
   engine_pull_stage env a engine_override
      (git_repo (cfg a st) \<noteq> [] \<and> git_proj_branch (cfg a st) \<noteq> []) st1 = (Returned, st2) \<Longrightarrow>
   editor_running (cfg a st2) \<Longrightarrow>
   engine_deps_stage env a st2 = (Returned, st2) \<and>
   ensure_engine env a engine_override st = (Returned, st2)"
  by (simp add: ensure_engine_def engine_deps_stage_def Let_def)

theorem editor_running_skips_dependencies_witness:
  "ensure_engine demo_env 0 [] editor_running_state =
     (Returned, emit [SetupEnginePaths []] editor_running_state)"
proof -
  have c: "(git_repo (cfg 0 editor_running_state) \<noteq> [] \<and>
            git_proj_branch (cfg 0 editor_running_state) \<noteq> []) = False"
    by (simp add: cfg_def editor_running_state_def demo_state_def demo_config_def)
  have h1: "engine_path_stage demo_env 0 []
              (git_repo (cfg 0 editor_running_state) \<noteq> [] \<and>
               git_proj_branch (cfg 0 editor_running_state) \<noteq> []) editor_running_state
            = (Returned, editor_running_state)"
    unfolding c
    by (simp add: engine_path_stage_def cfg_def editor_running_state_def demo_state_def demo_config_def)
  have h2: "engine_pull_stage demo_env 0 []
              (git_repo (cfg 0 editor_running_state) \<noteq> [] \<and>
               git_proj_branch (cfg 0 editor_running_state) \<noteq> []) editor_running_state
            = (Returned, emit [SetupEnginePaths []] editor_running_state)"
    unfolding c
    by (simp add: engine_pull_stage_def do_setup_def cfg_def set_cfg_def emit_def
        editor_running_state_def demo_state_def demo_config_def demo_env_def)
  have h3: "editor_running (cfg 0 (emit [SetupEnginePaths []] editor_running_state))"
    by (simp add: cfg_def emit_def editor_running_state_def demo_state_def demo_config_def)
  from editor_running_skips_dependencies [OF h1 h2 h3] show ?thesis by simp
qed

section \<open>Keyword arguments of an action\<close>

text \<open>
  C10. For an enabled step whose class is found, the keyword arguments are the metadata
  values collected for the requested keys, overridden by the static arguments: a key
  of the static arguments has the static value, every other key has the collected
  value. The pass over the step is the call of the class on the value of the driver's
  configuration and on exactly these keyword arguments, followed, when the call
  returns an instance, by verifying and running that instance.
\<close>

theorem static_args_override_meta:
  "prepare_step mods s st = Inr (cls, cn, kw, st1) \<Longrightarrow> a < length (heap st) \<Longrightarrow>
   (\<exists>km. (case meta (action s) of
            None \<Rightarrow> km = Map.empty
          | Some ks \<Rightarrow> collect_meta (build_meta st) ks = Inr km) \<and>
         kw = km ++ (case args (action s) of None \<Rightarrow> Map.empty | Some am \<Rightarrow> am) \<and>
         (\<forall>am k v. args (action s) = Some am \<and> am k = Some v \<longrightarrow> kw k = Some v) \<and>
         (\<forall>am k. args (action s) = Some am \<and> am k = None \<longrightarrow> kw k = km k)) \<and>
   run_step mods a s st =
     (case ac_init cls (cfg a st) kw (trace st1 @ [Construct cn (length (heap st)) (cfg a st) kw]) of
        (rb, c', evs) \<Rightarrow>
          (case rb of
             Inl e \<Rightarrow>
               (Leave (Raised e),
                st1\<lparr>heap := heap st @ [c'],
                    trace := trace st1 @ Construct cn (length (heap st)) (cfg a st) kw
                               # map ByAction evs\<rparr>)
           | Inr b \<Rightarrow>
               verify_and_run cls cn s b (length (heap st))
                 (st1\<lparr>heap := heap st @ [c'],
                      trace := trace st1 @ Construct cn (length (heap st)) (cfg a st) kw
                                 # map ByAction evs\<rparr>)))"
proof -
  assume prep: "prepare_step mods s st = Inr (cls, cn, kw, st1)" and a: "a < length (heap st)"
  from prepare_step_kwargs [OF prep]
  have bk: "build_kwargs (build_meta st) (action s) = Inr kw"
    and st1: "st1 = emit [PrintAction (step_desc s), ImportModule (module (action s))] st"
    by simp_all
  from st1 have h1: "heap st1 = heap st" and c1: "cfg a st1 = cfg a st"
    by (simp_all add: cfg_def)
  from build_kwargs_shape [OF bk] obtain km where
    km: "(case meta (action s) of None \<Rightarrow> km = Map.empty
          | Some ks \<Rightarrow> collect_meta (build_meta st) ks = Inr km)"
    and kw: "kw = km ++ (case args (action s) of None \<Rightarrow> Map.empty | Some am \<Rightarrow> am)"
    by blast
  have "(\<forall>am k v. args (action s) = Some am \<and> am k = Some v \<longrightarrow> kw k = Some v) \<and>
        (\<forall>am k. args (action s) = Some am \<and> am k = None \<longrightarrow> kw k = km k)"
    using kw by (auto simp: map_add_def)
  with km kw have one: "\<exists>km. (case meta (action s) of
            None \<Rightarrow> km = Map.empty
          | Some ks \<Rightarrow> collect_meta (build_meta st) ks = Inr km) \<and>
         kw = km ++ (case args (action s) of None \<Rightarrow> Map.empty | Some am \<Rightarrow> am) \<and>
         (\<forall>am k v. args (action s) = Some am \<and> am k = Some v \<longrightarrow> kw k = Some v) \<and>
         (\<forall>am k. args (action s) = Some am \<and> am k = None \<longrightarrow> kw k = km k)"
    by blast
  have a1: "a < length (heap st1)" using a h1 by simp
  have two: "run_step mods a s st =
     (case ac_init cls (cfg a st) kw (trace st1 @ [Construct cn (length (heap st)) (cfg a st) kw]) of
        (rb, c', evs) \<Rightarrow>
          (case rb of
             Inl e \<Rightarrow>
               (Leave (Raised e),
                st1\<lparr>heap := heap st @ [c'],
                    trace := trace st1 @ Construct cn (length (heap st)) (cfg a st) kw
                               # map ByAction evs\<rparr>)
           | Inr b \<Rightarrow>
               verify_and_run cls cn s b (length (heap st))
                 (st1\<lparr>heap := heap st @ [c'],
                      trace := trace st1 @ Construct cn (length (heap st)) (cfg a st) kw
                                 # map ByAction evs\<rparr>)))"
    using prep
    by (simp add: run_step_def run_action_def construct_action_init [OF a1] h1 c1
        split: prod.splits sum.splits)
  from one two show ?thesis by blast
qed

theorem static_args_override_meta_witness:
  "prepare_step demo_modules override_step override_state =
     Inr (demo_class [] True, ''Good'', override_kwargs, override_state1) \<and>
   override_kwargs ''level'' = Some (PInt 2) \<and>
   override_kwargs ''mode'' = Some (PStr ''fast'') \<and>
   build_meta (snd (run_step demo_modules 0 override_step override_state)) ''seen_level'' = Some (PInt 2) \<and>
   build_meta (snd (run_step demo_modules 0 override_step override_state)) ''seen_mode'' = Some (PStr ''fast'')"
proof -
  have prep: "prepare_step demo_modules override_step override_state =
     Inr (demo_class [] True, ''Good'', override_kwargs, override_state1)"
    by (simp add: prepare_step_def build_kwargs_def collect_meta_def disabled_def step_desc_def
        string_defs demo_modules_def demo_step_def override_step_def override_state_def
        override_state1_def override_kwargs_def emit_def demo_state_def)
  have a: "0 < length (heap override_state)"
    by (simp add: override_state_def demo_state_def)
  have kw: "override_kwargs ''level'' = Some (PInt 2) \<and> override_kwargs ''mode'' = Some (PStr ''fast'')"
    by (simp add: override_kwargs_def override_state_def demo_state_def restrict_map_def)
  have init: "ac_init (demo_class [] True) c override_kwargs h = (Inr override_kwargs, c, [])" for c h
    by (simp add: demo_class_def)
  from static_args_override_meta [OF prep a]
  have "run_step demo_modules 0 override_step override_state =
      verify_and_run (demo_class [] True) ''Good'' override_step override_kwargs
        (length (heap override_state))
        (override_state1\<lparr>heap := heap override_state @ [cfg 0 override_state],
           trace := trace override_state1 @
             [Construct ''Good'' (length (heap override_state)) (cfg 0 override_state) override_kwargs]\<rparr>)"
    by (simp add: init)
  then have "build_meta (snd (run_step demo_modules 0 override_step override_state)) ''seen_level'' = override_kwargs ''level'' \<and>
    build_meta (snd (run_step demo_modules 0 override_step override_state)) ''seen_mode'' = override_kwargs ''mode''"
    by (simp add: verify_and_run_def verify_action_def run_call_def call_method_def
        do_meta_updates_def meta_update_def save_meta_def demo_class_def override_step_def
        demo_step_def kw emit_def set_cfg_def cfg_def override_state1_def override_state_def
        demo_state_def)
  with prep kw show ?thesis by simp
qed

section \<open>Failing steps\<close>

text \<open>
  C2. A step that is prepared, constructed and verified, in a group whose earlier
  steps ran through. When \<^verbatim>\<open>verify\<close> answers an error, or when it answers none
  and \<^verbatim>\<open>run\<close> answers failure, and the step has \<^verbatim>\<open>allow_failure\<close> set to
  true, the runner prints the error and a second warning and returns: the steps after
  it in the group are not looked at (the result does not depend on them), and whatever
  follows the group in the driver runs, from the state in which the group stopped.
  Without \<^verbatim>\<open>allow_failure\<close> the runner ends in \<^verbatim>\<open>error_exit\<close> with the
  error, and nothing that follows the group in the driver runs. Nothing is asked of
  \<^verbatim>\<open>run\<close> when \<^verbatim>\<open>verify\<close> has answered an error.
\<close>

theorem allow_failure_policy:
  assumes prep: "prepare_step mods s st = Inr (cls, cn, kw, st1)"
    and con: "construct_action cls cn a kw st1 = (Inr b, a', st2)"
    and ver: "verify_action cls cn b a' st2 = (Inr verify_error, b1, st3)"
    and scr: "script (cfg a st0) = Some sc"
    and grp: "sc steps_name = Some (pre @ s # rest)"
    and pre: "run_steps mods a pre st0 = (Next, st)"
  shows
    "(verify_error \<noteq> [] \<and> allows_failure s \<longrightarrow>
        run_build_steps mods a steps_name complain st0 =
          (Returned,
           emit [PrintWarning verify_error,
                 PrintWarning ''Verification of this action failed. Skipping because of allow_failure flag.''] st3) \<and>
        (\<forall>k. and_then (run_build_steps mods a steps_name complain st0) k =
           k (emit [PrintWarning verify_error,
                    PrintWarning ''Verification of this action failed. Skipping because of allow_failure flag.''] st3))) \<and>
     (verify_error \<noteq> [] \<and> \<not> allows_failure s \<longrightarrow>
        run_build_steps mods a steps_name complain st0 = (ErrorExit verify_error, st3) \<and>
        (\<forall>k. and_then (run_build_steps mods a steps_name complain st0) k = (ErrorExit verify_error, st3))) \<and>
     (\<forall>b2 st4. verify_error = [] \<and> run_call cls cn b1 a' st3 = (Inr False, b2, st4) \<and>
        allows_failure s \<longrightarrow>
        run_build_steps mods a steps_name complain st0 =
          (Returned,
           emit [PrintWarning (ac_error cls b2),
                 PrintWarning ''Running of this action failed. Skipping because of allow_failure flag.''] st4) \<and>
        (\<forall>k. and_then (run_build_steps mods a steps_name complain st0) k =
           k (emit [PrintWarning (ac_error cls b2),
                    PrintWarning ''Running of this action failed. Skipping because of allow_failure flag.''] st4))) \<and>
     (\<forall>b2 st4. verify_error = [] \<and> run_call cls cn b1 a' st3 = (Inr False, b2, st4) \<and>
        \<not> allows_failure s \<longrightarrow>
        run_build_steps mods a steps_name complain st0 = (ErrorExit (ac_error cls b2), st4) \<and>
        (\<forall>k. and_then (run_build_steps mods a steps_name complain st0) k = (ErrorExit (ac_error cls b2), st4)))"
proof -
  have step: "run_step mods a s st = verify_and_run cls cn s b a' st2"
    using prep by (simp add: run_step_def run_action_def con)
  have loop: "run_steps mods a (pre @ s # rest) st0 =
      (case verify_and_run cls cn s b a' st2 of
         (Next, st') \<Rightarrow> run_steps mods a rest st'
       | (Leave out, st') \<Rightarrow> (Leave out, st'))"
    using run_steps_append_Next [OF pre] step by simp
  have grp': "run_build_steps mods a steps_name complain st0 =
      (case run_steps mods a (pre @ s # rest) st0 of
         (Next, st') \<Rightarrow> (Returned, st')
       | (Leave out, st') \<Rightarrow> (out, st'))"
    using run_build_steps_group [OF scr grp] .
  show ?thesis
    unfolding grp' loop
    by (auto simp: verify_and_run_def ver)
qed

text \<open>The sample classes at the four failing steps of the sample script.\<close>

lemma demo_prepare:
  "mods_class = demo_class verr ok \<Longrightarrow> demo_modules m = Some [cn \<mapsto> mods_class] \<Longrightarrow>
   class_name m = cn \<Longrightarrow>
   prepare_step demo_modules ((demo_step m)\<lparr>allow_failure := af\<rparr>) policy_state =
     Inr (demo_class verr ok, cn, Map.empty, policy_state1 m)"
  by (simp add: prepare_step_def build_kwargs_def disabled_def step_desc_def demo_step_def
      policy_state1_def)

lemma demo_construct:
  "construct_action (demo_class verr ok) cn 0 Map.empty (policy_state1 m) =
     (Inr Map.empty, 1, snd (snd (construct_action (demo_class verr ok) cn 0 Map.empty (policy_state1 m))))"
  by (simp add: construct_action_def deepcopy_def demo_class_def policy_state1_def policy_state_def
      demo_state_def emit_def)

lemma demo_verify:
  "verify_action (demo_class verr ok) cn Map.empty 1 st2 =
     (Inr verr, Map.empty, snd (snd (verify_action (demo_class verr ok) cn Map.empty 1 st2)))"
  by (simp add: verify_action_def call_method_def demo_class_def)

lemma demo_run:
  "run_call (demo_class verr ok) cn Map.empty 1 st3 =
     (Inr ok, Map.empty, snd (snd (run_call (demo_class verr ok) cn Map.empty 1 st3)))"
  by (simp add: run_call_def call_method_def demo_class_def)

lemma policy_script_cfg: "script (cfg 0 policy_state) = Some policy_script"
  by (simp add: cfg_def policy_state_def demo_state_def demo_config_def)

theorem allow_failure_policy_witness:
  "fst (run_build_steps demo_modules 0 ''verify_allowed'' False policy_state) = Returned \<and>
   fst (run_build_steps demo_modules 0 ''verify_fatal'' False policy_state) = ErrorExit ''not ready'' \<and>
   fst (run_build_steps demo_modules 0 ''run_allowed'' False policy_state) = Returned \<and>
   fst (run_build_steps demo_modules 0 ''run_fatal'' False policy_state) = ErrorExit ''tool failed'' \<and>
   fst (and_then (run_build_steps demo_modules 0 ''verify_allowed'' False policy_state)
          (run_build_steps demo_modules 0 ''run_fatal'' False)) = ErrorExit ''tool failed'' \<and>
   fst (and_then (run_build_steps demo_modules 0 ''verify_fatal'' False policy_state)
          (run_build_steps demo_modules 0 ''run_allowed'' False)) = ErrorExit ''not ready'' \<and>
   CallRun ''Good'' \<notin> set (trace (snd (run_build_steps demo_modules 0 ''verify_allowed'' False policy_state))) \<and>
   CallRun ''Good'' \<notin> set (trace (snd (run_build_steps demo_modules 0 ''run_allowed'' False policy_state))) \<and>
   fst (build_script_steps demo_modules demo_env 0 [] ''Tools'' allow_state) = Returned \<and>
   CallRun ''Good'' \<in> set (trace (snd (build_script_steps demo_modules demo_env 0 [] ''Tools'' allow_state)))"
proof -
  let ?bv = "demo_class ''not ready'' True"
  let ?br = "demo_class [] False"
  let ?v2 = "snd (snd (construct_action ?bv ''Badverify'' 0 Map.empty (policy_state1 ''actions.badverify'')))"
  let ?v3 = "snd (snd (verify_action ?bv ''Badverify'' Map.empty 1 ?v2))"
  let ?r2 = "snd (snd (construct_action ?br ''Badrun'' 0 Map.empty (policy_state1 ''actions.badrun'')))"
  let ?r3 = "snd (snd (verify_action ?br ''Badrun'' Map.empty 1 ?r2))"
  let ?r4 = "snd (snd (run_call ?br ''Badrun'' Map.empty 1 ?r3))"
  have cnv: "class_name ''actions.badverify'' = ''Badverify''" by (simp add: string_defs)
  have cnr: "class_name ''actions.badrun'' = ''Badrun''" by (simp add: string_defs)
  have mv: "demo_modules ''actions.badverify'' = Some [''Badverify'' \<mapsto> ?bv]"
    by (simp add: demo_modules_def)
  have mr: "demo_modules ''actions.badrun'' = Some [''Badrun'' \<mapsto> ?br]"
    by (simp add: demo_modules_def)
  have prep_va: "prepare_step demo_modules badverify_allowed policy_state =
      Inr (?bv, ''Badverify'', Map.empty, policy_state1 ''actions.badverify'')"
    unfolding badverify_allowed_def using demo_prepare [OF refl mv cnv] .
  have prep_vf: "prepare_step demo_modules (demo_step ''actions.badverify'') policy_state =
      Inr (?bv, ''Badverify'', Map.empty, policy_state1 ''actions.badverify'')"
    using demo_prepare [OF refl mv cnv, of None] by (simp add: demo_step_def)
  have prep_ra: "prepare_step demo_modules badrun_allowed policy_state =
      Inr (?br, ''Badrun'', Map.empty, policy_state1 ''actions.badrun'')"
    unfolding badrun_allowed_def using demo_prepare [OF refl mr cnr] .
  have prep_rf: "prepare_step demo_modules (demo_step ''actions.badrun'') policy_state =
      Inr (?br, ''Badrun'', Map.empty, policy_state1 ''actions.badrun'')"
    using demo_prepare [OF refl mr cnr, of None] by (simp add: demo_step_def)
  have gva: "policy_script ''verify_allowed'' = Some ([] @ badverify_allowed # [demo_step ''actions.good''])"
    and gvf: "policy_script ''verify_fatal'' = Some ([] @ demo_step ''actions.badverify'' # [demo_step ''actions.good''])"
    and gra: "policy_script ''run_allowed'' = Some ([] @ badrun_allowed # [demo_step ''actions.good''])"
    and grf: "policy_script ''run_fatal'' = Some ([] @ demo_step ''actions.badrun'' # [demo_step ''actions.good''])"
    by (simp_all add: policy_script_def)
  have pre: "run_steps demo_modules 0 [] policy_state = (Next, policy_state)" by simp
  have al: "allows_failure badverify_allowed" "allows_failure badrun_allowed"
    "\<not> allows_failure (demo_step ''actions.badverify'')" "\<not> allows_failure (demo_step ''actions.badrun'')"
    by (simp_all add: allows_failure_def badverify_allowed_def badrun_allowed_def demo_step_def)
  have err: "ac_error ?br Map.empty = ''tool failed''" by (simp add: demo_class_def)
  note va = allow_failure_policy [OF prep_va demo_construct demo_verify policy_script_cfg gva pre, of False]
  note vf = allow_failure_policy [OF prep_vf demo_construct demo_verify policy_script_cfg gvf pre, of False]
  note ra = allow_failure_policy [OF prep_ra demo_construct demo_verify policy_script_cfg gra pre, of False]
  note rf = allow_failure_policy [OF prep_rf demo_construct demo_verify policy_script_cfg grf pre, of False]
  have r1: "run_build_steps demo_modules 0 ''verify_allowed'' False policy_state =
      (Returned, emit [PrintWarning ''not ready'',
           PrintWarning ''Verification of this action failed. Skipping because of allow_failure flag.''] ?v3)"
    using va al by simp
  have r2: "run_build_steps demo_modules 0 ''verify_fatal'' False policy_state = (ErrorExit ''not ready'', ?v3)"
    using vf al by simp
  have r3: "run_build_steps demo_modules 0 ''run_allowed'' False policy_state =
      (Returned, emit [PrintWarning ''tool failed'',
           PrintWarning ''Running of this action failed. Skipping because of allow_failure flag.''] ?r4)"
    using ra al demo_run [of "[]" False "''Badrun''" ?r3] err by simp
  have r4: "run_build_steps demo_modules 0 ''run_fatal'' False policy_state = (ErrorExit ''tool failed'', ?r4)"
    using rf al demo_run [of "[]" False "''Badrun''" ?r3] err by simp
  have k1: "fst (and_then (run_build_steps demo_modules 0 ''verify_allowed'' False policy_state)
          (run_build_steps demo_modules 0 ''run_fatal'' False)) = ErrorExit ''tool failed''"
    unfolding r1
    by (simp add: policy_state1_def policy_state_def policy_script_def runner_defs string_defs demo_defs)
  have k2: "fst (and_then (run_build_steps demo_modules 0 ''verify_fatal'' False policy_state)
          (run_build_steps demo_modules 0 ''run_allowed'' False)) = ErrorExit ''not ready''"
    unfolding r2 by simp
  have n1: "CallRun ''Good'' \<notin> set (trace (snd (run_build_steps demo_modules 0 ''verify_allowed'' False policy_state)))"
    unfolding r1
    by (simp add: policy_state1_def policy_state_def runner_defs demo_defs)
  have n3: "CallRun ''Good'' \<notin> set (trace (snd (run_build_steps demo_modules 0 ''run_allowed'' False policy_state)))"
    unfolding r3
    by (simp add: policy_state1_def policy_state_def runner_defs demo_defs)
  have driver: "fst (build_script_steps demo_modules demo_env 0 [] ''Tools'' allow_state) = Returned \<and>
      CallRun ''Good'' \<in> set (trace (snd (build_script_steps demo_modules demo_env 0 [] ''Tools'' allow_state)))"
    by (simp add: build_script_steps_def editor_build_def engine_build_def main_steps_def finish_def
        allow_state_def badverify_allowed_def and_then_def runner_defs string_defs demo_defs)
  from r1 r2 r3 r4 k1 k2 n1 n3 driver show ?thesis by simp
qed

section \<open>Isolation of the configuration\<close>

text \<open>Emitting events, saving metadata and calls on another object keep an object.\<close>

lemma heap_set_cfg_other:
  "i \<noteq> a' \<Longrightarrow> heap (set_cfg a' c st) ! i = heap st ! i"
  by (simp add: set_cfg_def)

lemma length_heap_set_cfg [simp]: "length (heap (set_cfg a' c st)) = length (heap st)"
  by (simp add: set_cfg_def)

lemma trace_set_cfg [simp]: "trace (set_cfg a' c st) = trace st"
  by (simp add: set_cfg_def)

lemma constructions_append [simp]:
  "constructions (xs @ ys) = constructions xs @ constructions ys"
  by (induction xs rule: constructions.induct) simp_all

lemma constructions_ByAction [simp]: "constructions (map ByAction evs) = []"
  by (induction evs) simp_all

lemma call_method_frame:
  "call_method f b a' st = (r, b', st') \<Longrightarrow>
   length (heap st') = length (heap st) \<and> (\<forall>i. i \<noteq> a' \<longrightarrow> heap st' ! i = heap st ! i) \<and>
   (\<exists>evs. trace st' = trace st @ map ByAction evs)"
  by (auto simp: call_method_def heap_set_cfg_other split: prod.splits)

lemma construct_action_frame:
  "a < length (heap st) \<Longrightarrow> construct_action cls cn a kw st = (rb, a', st2) \<Longrightarrow>
   a' = length (heap st) \<and> length (heap st2) = Suc (length (heap st)) \<and>
   (\<forall>i<length (heap st). heap st2 ! i = heap st ! i) \<and>
   (\<exists>evs. trace st2 = trace st @ Construct cn (length (heap st)) (cfg a st) kw # map ByAction evs)"
  by (auto simp: construct_action_init nth_append split: prod.splits)

text \<open>Verifying and running an instance writes no object but its own and constructs nothing.\<close>

lemma verify_and_run_frame:
  assumes r: "verify_and_run cls cn s b a' st2 = (f, st')"
  shows "length (heap st') = length (heap st2) \<and>
         (\<forall>i. i \<noteq> a' \<longrightarrow> heap st' ! i = heap st2 ! i) \<and>
         (\<exists>new. trace st' = trace st2 @ new \<and> constructions new = [])"
proof -
  obtain rv b1 st3 where ver: "verify_action cls cn b a' st2 = (rv, b1, st3)"
    by (metis prod_cases3)
  from call_method_frame [OF ver [unfolded verify_action_def]]
  obtain ev3 where l3: "length (heap st3) = length (heap st2)"
    and h3: "\<forall>i. i \<noteq> a' \<longrightarrow> heap st3 ! i = heap st2 ! i"
    and t3: "trace st3 = trace st2 @ CallVerify cn # map ByAction ev3"
    by auto
  have c3: "constructions (CallVerify cn # map ByAction ev3) = []" by simp
  obtain rr b2 st4 where run: "run_call cls cn b1 a' st3 = (rr, b2, st4)"
    by (metis prod_cases3)
  from call_method_frame [OF run [unfolded run_call_def]]
  obtain ev4 where l4: "length (heap st4) = length (heap st2)"
    and h4: "\<forall>i. i \<noteq> a' \<longrightarrow> heap st4 ! i = heap st2 ! i"
    and t4: "trace st4 = trace st2 @ (CallVerify cn # map ByAction ev3) @ CallRun cn # map ByAction ev4"
    using l3 h3 t3 by auto
  have c4: "constructions ((CallVerify cn # map ByAction ev3) @ CallRun cn # map ByAction ev4) = []"
    by simp
  have t5: "\<exists>new. trace (do_meta_updates cls b2 (action s) st4) = trace st2 @ new \<and> constructions new = []"
  proof (cases "meta_updates (action s)")
    case None
    with t4 c4 show ?thesis by (simp add: do_meta_updates_def)
  next
    case (Some ups)
    then have "trace (do_meta_updates cls b2 (action s) st4) =
        trace st2 @ ((CallVerify cn # map ByAction ev3) @ CallRun cn # map ByAction ev4) @ [SaveMeta]"
      using t4 by (simp add: do_meta_updates_def save_meta_def)
    moreover have "constructions (((CallVerify cn # map ByAction ev3) @ CallRun cn # map ByAction ev4) @ [SaveMeta]) = []"
      by simp
    ultimately show ?thesis by blast
  qed
  have w3: "\<exists>new. trace (emit [PrintWarning x, PrintWarning y] st3) = trace st2 @ new \<and> constructions new = []" for x y
  proof -
    have "trace (emit [PrintWarning x, PrintWarning y] st3) =
        trace st2 @ (CallVerify cn # map ByAction ev3) @ [PrintWarning x, PrintWarning y]"
      using t3 by simp
    moreover have "constructions ((CallVerify cn # map ByAction ev3) @ [PrintWarning x, PrintWarning y]) = []"
      by simp
    ultimately show ?thesis by blast
  qed
  have w4: "\<exists>new. trace (emit [PrintWarning x, PrintWarning y] st4) = trace st2 @ new \<and> constructions new = []" for x y
  proof -
    have "trace (emit [PrintWarning x, PrintWarning y] st4) =
        trace st2 @ ((CallVerify cn # map ByAction ev3) @ CallRun cn # map ByAction ev4) @ [PrintWarning x, PrintWarning y]"
      using t4 by simp
    moreover have "constructions (((CallVerify cn # map ByAction ev3) @ CallRun cn # map ByAction ev4) @ [PrintWarning x, PrintWarning y]) = []"
      by simp
    ultimately show ?thesis by blast
  qed
  have e3: "\<exists>new. trace st3 = trace st2 @ new \<and> constructions new = []"
    using t3 c3 by blast
  have e4: "\<exists>new. trace st4 = trace st2 @ new \<and> constructions new = []"
    using t4 c4 by blast
  from r ver run l3 h3 l4 h4 t5 w3 w4 e3 e4 show ?thesis
    by (auto simp: verify_and_run_def split: sum.splits if_splits)
qed

lemma run_action_frame:
  assumes a: "a < length (heap st1)" and r: "run_action cls cn a s kw st1 = (f, st')"
  shows "length (heap st') = Suc (length (heap st1)) \<and>
         (\<forall>i<length (heap st1). heap st' ! i = heap st1 ! i) \<and>
         (\<exists>new. trace st' = trace st1 @ new \<and>
                 constructions new = [(length (heap st1), cfg a st1)])"
proof -
  obtain rb a' st2 where con: "construct_action cls cn a kw st1 = (rb, a', st2)"
    by (metis prod_cases3)
  from construct_action_frame [OF a con]
  obtain evs where a': "a' = length (heap st1)" and l2: "length (heap st2) = Suc (length (heap st1))"
    and h2: "\<forall>i<length (heap st1). heap st2 ! i = heap st1 ! i"
    and t2: "trace st2 = trace st1 @ Construct cn (length (heap st1)) (cfg a st1) kw # map ByAction evs"
    by auto
  have c2: "constructions (Construct cn (length (heap st1)) (cfg a st1) kw # map ByAction evs)
      = [(length (heap st1), cfg a st1)]" by simp
  show ?thesis
  proof (cases rb)
    case (Inl e)
    with r con have "st' = st2" by (simp add: run_action_def)
    with l2 h2 t2 c2 show ?thesis by blast
  next
    case (Inr b)
    with r con have vr: "verify_and_run cls cn s b a' st2 = (f, st')" by (simp add: run_action_def)
    from verify_and_run_frame [OF vr] obtain new where
      l: "length (heap st') = length (heap st2)"
      and h: "\<forall>i. i \<noteq> a' \<longrightarrow> heap st' ! i = heap st2 ! i"
      and t: "trace st' = trace st2 @ new" and c: "constructions new = []"
      by blast
    have "trace st' = trace st1 @ (Construct cn (length (heap st1)) (cfg a st1) kw # map ByAction evs) @ new"
      using t t2 by simp
    moreover have "constructions ((Construct cn (length (heap st1)) (cfg a st1) kw # map ByAction evs) @ new)
        = [(length (heap st1), cfg a st1)]"
      using c by simp
    ultimately have "\<exists>new. trace st' = trace st1 @ new \<and>
                 constructions new = [(length (heap st1), cfg a st1)]" by blast
    with l l2 h h2 a' show ?thesis by auto
  qed
qed

lemma run_step_frame:
  assumes a: "a < length (heap st)" and r: "run_step mods a s st = (f, st')"
  shows "(\<forall>i<length (heap st). heap st' ! i = heap st ! i) \<and>
         (\<exists>new. trace st' = trace st @ new \<and>
            (constructions new = [] \<and> length (heap st') = length (heap st) \<or>
             constructions new = [(length (heap st), cfg a st)] \<and>
             length (heap st') = Suc (length (heap st))))"
proof (cases "prepare_step mods s st")
  case (Inl res)
  then have s': "st' = snd res" using r by (simp add: run_step_def)
  have "heap (snd res) = heap st \<and> (\<exists>new. trace (snd res) = trace st @ new \<and> constructions new = [])"
    using Inl
    by (auto simp: prepare_step_def Let_def emit_def split: if_splits option.splits sum.splits)
  with s' show ?thesis by auto
next
  case (Inr p)
  then obtain cls cn kw st1 where p: "prepare_step mods s st = Inr (cls, cn, kw, st1)"
    by (metis prod_cases4)
  from prepare_step_kwargs [OF p]
  have st1: "st1 = emit [PrintAction (step_desc s), ImportModule (module (action s))] st" by simp
  then have h1: "heap st1 = heap st" and c1: "cfg a st1 = cfg a st" by (simp_all add: cfg_def)
  from p r have ra: "run_action cls cn a s kw st1 = (f, st')" by (simp add: run_step_def)
  from run_action_frame [OF _ ra] a h1 c1 obtain new where
    l: "length (heap st') = Suc (length (heap st))"
    and h: "\<forall>i<length (heap st). heap st' ! i = heap st ! i"
    and t: "trace st' = trace st1 @ new" and c: "constructions new = [(length (heap st), cfg a st)]"
    by auto
  have "trace st' = trace st @ [PrintAction (step_desc s), ImportModule (module (action s))] @ new"
    using t st1 by simp
  moreover have "constructions ([PrintAction (step_desc s), ImportModule (module (action s))] @ new)
      = [(length (heap st), cfg a st)]"
    using c by simp
  ultimately show ?thesis using l h by blast
qed

lemma upt_join: "i \<le> j \<Longrightarrow> j \<le> k \<Longrightarrow> [i..<j] @ [j..<k] = [i..<k]"
  by (metis le_Suc_ex upt_add_eq_append)

lemma run_steps_frame:
  "a < length (heap st) \<Longrightarrow> run_steps mods a steps st = (f, st') \<Longrightarrow>
   length (heap st) \<le> length (heap st') \<and>
   (\<forall>i<length (heap st). heap st' ! i = heap st ! i) \<and>
   (\<exists>new. trace st' = trace st @ new \<and>
      map fst (constructions new) = [length (heap st)..<length (heap st')] \<and>
      (\<forall>p\<in>set (constructions new). snd p = cfg a st))"
proof (induction steps arbitrary: st)
  case Nil
  then show ?case by simp
next
  case (Cons s steps)
  obtain f1 st1 where one: "run_step mods a s st = (f1, st1)" by (cases "run_step mods a s st")
  from run_step_frame [OF Cons.prems(1) one] obtain new1 where
    h1: "\<forall>i<length (heap st). heap st1 ! i = heap st ! i"
    and t1: "trace st1 = trace st @ new1"
    and c1: "constructions new1 = [] \<and> length (heap st1) = length (heap st) \<or>
             constructions new1 = [(length (heap st), cfg a st)] \<and>
             length (heap st1) = Suc (length (heap st))"
    by blast
  from c1 have l1: "length (heap st) \<le> length (heap st1)" by auto
  from c1 have m1: "map fst (constructions new1) = [length (heap st)..<length (heap st1)]"
    by auto
  from c1 have v1: "\<forall>p\<in>set (constructions new1). snd p = cfg a st" by auto
  show ?case
  proof (cases f1)
    case Next
    with one Cons.prems(2) have rest: "run_steps mods a steps st1 = (f, st')" by simp
    from Cons.prems(1) l1 have a1: "a < length (heap st1)" by simp
    from h1 Cons.prems(1) have cfg1: "cfg a st1 = cfg a st" by (simp add: cfg_def)
    from Cons.IH [OF a1 rest] obtain new2 where
      l2: "length (heap st1) \<le> length (heap st')"
      and h2: "\<forall>i<length (heap st1). heap st' ! i = heap st1 ! i"
      and t2: "trace st' = trace st1 @ new2"
      and m2: "map fst (constructions new2) = [length (heap st1)..<length (heap st')]"
      and v2: "\<forall>p\<in>set (constructions new2). snd p = cfg a st1"
      by blast
    have t: "trace st' = trace st @ new1 @ new2" using t1 t2 by simp
    have m: "map fst (constructions (new1 @ new2)) = [length (heap st)..<length (heap st')]"
      using m1 m2 upt_join [OF l1 l2] by simp
    have v: "\<forall>p\<in>set (constructions (new1 @ new2)). snd p = cfg a st"
      using v1 v2 cfg1 by auto
    have h: "\<forall>i<length (heap st). heap st' ! i = heap st ! i"
      using h1 h2 l1 by auto
    from t m v h l1 l2 show ?thesis by (intro conjI exI [of _ "new1 @ new2"]) auto
  next
    case (Leave out)
    with one Cons.prems(2) have "st' = st1" by simp
    with l1 h1 t1 m1 v1 show ?thesis by blast
  qed
qed

text \<open>
  C3. The driver's configuration is the object at address \<open>a\<close>. Whatever the step
  list and whatever the actions do to the configuration they hold: after the loop the
  driver's configuration is as it was; every object that exists once a first part of
  the list has run (the driver's configuration and the copies handed to the actions
  of that part) is left as it is by the rest of the list; the constructor calls of
  the loop are made on objects that were not in use before, one new object for each
  call, and each call is handed the value of the driver's configuration.
\<close>

theorem actions_get_isolated_clones:
  "a < length (heap st) \<Longrightarrow> run_steps mods a xs st = (Next, st1) \<Longrightarrow>
   run_steps mods a (xs @ ys) st = (f, st') \<Longrightarrow>
   cfg a st' = cfg a st \<and>
   (\<forall>i<length (heap st1). heap st' ! i = heap st1 ! i) \<and>
   (\<exists>new. trace st' = trace st @ new \<and>
      map fst (constructions new) = [length (heap st)..<length (heap st')] \<and>
      (\<forall>p\<in>set (constructions new). snd p = cfg a st))"
proof -
  assume a: "a < length (heap st)" and x: "run_steps mods a xs st = (Next, st1)"
    and r: "run_steps mods a (xs @ ys) st = (f, st')"
  from run_steps_frame [OF a r] have
    h: "\<forall>i<length (heap st). heap st' ! i = heap st ! i"
    and n: "\<exists>new. trace st' = trace st @ new \<and>
      map fst (constructions new) = [length (heap st)..<length (heap st')] \<and>
      (\<forall>p\<in>set (constructions new). snd p = cfg a st)"
    by blast+
  from h a have c: "cfg a st' = cfg a st" by (simp add: cfg_def)
  from run_steps_frame [OF a x] have "length (heap st) \<le> length (heap st1)" by simp
  with a have a1: "a < length (heap st1)" by simp
  from run_steps_append_Next [OF x, of ys] r have "run_steps mods a ys st1 = (f, st')" by simp
  from run_steps_frame [OF a1 this] have "\<forall>i<length (heap st1). heap st' ! i = heap st1 ! i" by simp
  with c n show ?thesis by blast
qed

lemma two_good_run:
  "fst (run_steps demo_modules 0 [demo_step ''actions.good''] no_script_state) = Next \<and>
   map clean (heap (snd (run_steps demo_modules 0 two_good_steps no_script_state))) = [False, True, True] \<and>
   map fst (constructions (trace (snd (run_steps demo_modules 0 two_good_steps no_script_state)))) = [1, 2] \<and>
   map (clean \<circ> snd) (constructions (trace (snd (run_steps demo_modules 0 two_good_steps no_script_state))))
     = [False, False]"
  by (simp add: two_good_steps_def no_script_state_def runner_defs string_defs demo_defs)

theorem actions_get_isolated_clones_witness:
  "0 < length (heap no_script_state) \<and>
   cfg 0 (snd (run_steps demo_modules 0 two_good_steps no_script_state)) = cfg 0 no_script_state \<and>
   clean (cfg 0 no_script_state) = False \<and>
   map clean (heap (snd (run_steps demo_modules 0 two_good_steps no_script_state))) = [False, True, True] \<and>
   map fst (constructions (trace (snd (run_steps demo_modules 0 two_good_steps no_script_state)))) = [1, 2] \<and>
   map (clean \<circ> snd) (constructions (trace (snd (run_steps demo_modules 0 two_good_steps no_script_state))))
     = [False, False]"
proof -
  have a: "0 < length (heap no_script_state)"
    by (simp add: no_script_state_def demo_state_def)
  have x: "run_steps demo_modules 0 [demo_step ''actions.good''] no_script_state =
      (Next, snd (run_steps demo_modules 0 [demo_step ''actions.good''] no_script_state))"
    using two_good_run by (metis prod.collapse)
  have r: "run_steps demo_modules 0 ([demo_step ''actions.good''] @ [demo_step ''actions.good'']) no_script_state =
      (fst (run_steps demo_modules 0 two_good_steps no_script_state),
       snd (run_steps demo_modules 0 two_good_steps no_script_state))"
    by (simp add: two_good_steps_def)
  have c: "clean (cfg 0 no_script_state) = False"
    by (simp add: cfg_def no_script_state_def demo_state_def demo_config_def)
  from actions_get_isolated_clones [OF a x r]
  have "cfg 0 (snd (run_steps demo_modules 0 two_good_steps no_script_state)) = cfg 0 no_script_state"
    by blast
  with a c two_good_run show ?thesis by simp
qed

section \<open>Meta updates\<close>

text \<open>Actions cannot reach the metadata object.\<close>

lemma build_meta_set_cfg [simp]: "build_meta (set_cfg a c st) = build_meta st"
  by (simp add: set_cfg_def)

lemma call_method_build_meta:
  "call_method f b a' st = (r, b', st') \<Longrightarrow> build_meta st' = build_meta st"
  by (auto simp: call_method_def split: prod.splits)

lemma construct_action_build_meta:
  "construct_action cls cn a kw st = (rb, a', st2) \<Longrightarrow> build_meta st2 = build_meta st"
  by (auto simp: construct_action_def deepcopy_def Let_def split: prod.splits)

lemma foldl_meta_update:
  "distinct (map fst ups) \<Longrightarrow>
   foldl (\<lambda>m kv. meta_update cls b kv m) m0 ups k =
     (case map_of ups k of
        None \<Rightarrow> m0 k
      | Some v \<Rightarrow>
          (case ac_getattr cls b v of
             None \<Rightarrow> m0 k
           | Some x \<Rightarrow> if x \<noteq> PNone then Some x else m0 k))"
proof (induction ups arbitrary: m0)
  case Nil
  then show ?case by simp
next
  case (Cons kv ups)
  obtain k1 v1 where kv: "kv = (k1, v1)" by (cases kv)
  from Cons.prems kv have d: "distinct (map fst ups)" and n: "k1 \<notin> fst ` set ups" by auto
  from n have none: "map_of ups k1 = None" by (simp add: map_of_eq_None_iff)
  show ?case
    using Cons.IH [OF d, of "meta_update cls b kv m0"] kv none
    by (auto simp: meta_update_def split: option.splits)
qed

text \<open>
  C6, amended. An enabled step that is constructed, verified without error and run with
  success, and that declares \<^verbatim>\<open>meta_updates\<close> (a dictionary, so its keys are
  distinct): every mapping whose output exists on the instance and is not
  \<^verbatim>\<open>None\<close> is written to the store under its key; a mapping whose output is
  absent or \<^verbatim>\<open>None\<close> leaves its key as it was before the step, as is every
  other key; the store is then saved, so that the saved snapshot equals the store
  before the next step is looked at.
\<close>

theorem outputs_written_and_saved:
  assumes prep: "prepare_step mods s st = Inr (cls, cn, kw, st1)"
    and con: "construct_action cls cn a kw st1 = (Inr b, a', st2)"
    and ver: "verify_action cls cn b a' st2 = (Inr [], b1, st3)"
    and run: "run_call cls cn b1 a' st3 = (Inr True, b2, st4)"
    and ups: "meta_updates (action s) = Some ups"
    and dist: "distinct (map fst ups)"
  shows "\<exists>st'. run_step mods a s st = (Next, st') \<and>
           meta_file st' = build_meta st' \<and>
           (\<forall>k v x. (k, v) \<in> set ups \<and> ac_getattr cls b2 v = Some x \<and> x \<noteq> PNone
               \<longrightarrow> build_meta st' k = Some x) \<and>
           (\<forall>k v. (k, v) \<in> set ups \<and>
                   (ac_getattr cls b2 v = None \<or> ac_getattr cls b2 v = Some PNone)
               \<longrightarrow> build_meta st' k = build_meta st k) \<and>
           (\<forall>k. k \<notin> fst ` set ups \<longrightarrow> build_meta st' k = build_meta st k) \<and>
           (\<forall>rest. run_steps mods a (s # rest) st = run_steps mods a rest st')"
proof -
  let ?m = "foldl (\<lambda>m kv. meta_update cls b2 kv m) (build_meta st4) ups"
  let ?st' = "save_meta (st4\<lparr>build_meta := ?m\<rparr>)"
  have step: "run_step mods a s st = (Next, ?st')"
    using prep by (simp add: run_step_def run_action_def verify_and_run_def con ver run do_meta_updates_def ups)
  have m4: "build_meta st4 = build_meta st"
    using prepare_step_kwargs [OF prep] construct_action_build_meta [OF con]
      call_method_build_meta [OF ver [unfolded verify_action_def]]
      call_method_build_meta [OF run [unfolded run_call_def]]
    by simp
  have bm: "build_meta ?st' = ?m" and mf: "meta_file ?st' = build_meta ?st'"
    by (simp_all add: save_meta_def)
  have look: "\<And>k v. (k, v) \<in> set ups \<Longrightarrow> map_of ups k = Some v"
    using dist by simp
  have w: "\<forall>k v x. (k, v) \<in> set ups \<and> ac_getattr cls b2 v = Some x \<and> x \<noteq> PNone
               \<longrightarrow> build_meta ?st' k = Some x"
    unfolding bm by (auto simp: foldl_meta_update [OF dist] look)
  have u: "\<forall>k v. (k, v) \<in> set ups \<and>
                   (ac_getattr cls b2 v = None \<or> ac_getattr cls b2 v = Some PNone)
               \<longrightarrow> build_meta ?st' k = build_meta st k"
    unfolding bm by (auto simp: foldl_meta_update [OF dist] look m4)
  have o: "\<forall>k. k \<notin> fst ` set ups \<longrightarrow> build_meta ?st' k = build_meta st k"
  proof (intro allI impI)
    fix k
    assume "k \<notin> fst ` set ups"
    then have "map_of ups k = None" by (simp add: map_of_eq_None_iff)
    then show "build_meta ?st' k = build_meta st k"
      unfolding bm by (simp add: foldl_meta_update [OF dist] m4)
  qed
  have l: "\<forall>rest. run_steps mods a (s # rest) st = run_steps mods a rest ?st'"
    using step by simp
  from step mf w u o l show ?thesis by blast
qed

theorem outputs_written_and_saved_witness:
  "fst (run_step demo_modules 0 output_step no_script_state) = Next \<and>
   build_meta (snd (run_step demo_modules 0 output_step no_script_state)) ''foo'' = Some (PInt 42) \<and>
   meta_file (snd (run_step demo_modules 0 output_step no_script_state)) ''foo'' = Some (PInt 42)"
proof -
  let ?cls = "demo_class [] True"
  have prep: "prepare_step demo_modules output_step no_script_state =
      Inr (?cls, ''Good'', output_kwargs, output_state1)"
    by (simp add: prepare_step_def build_kwargs_def disabled_def step_desc_def string_defs
        demo_modules_def demo_step_def output_step_def output_state1_def output_kwargs_def)
  have con: "construct_action ?cls ''Good'' 0 output_kwargs output_state1 =
      (Inr output_kwargs, 1, output_state2)"
    by (simp add: output_state2_def construct_action_def deepcopy_def demo_class_def
        output_state1_def no_script_state_def demo_state_def emit_def)
  have ver: "verify_action ?cls ''Good'' output_kwargs 1 output_state2 =
      (Inr [], output_kwargs, output_state3)"
    by (simp add: output_state3_def verify_action_def call_method_def demo_class_def)
  have run: "run_call ?cls ''Good'' output_kwargs 1 output_state3 =
      (Inr True, output_kwargs, output_state4)"
    by (simp add: output_state4_def run_call_def call_method_def demo_class_def)
  have ups: "meta_updates (action output_step) = Some [(''foo'', ''barAttr'')]"
    by (simp add: output_step_def)
  have dist: "distinct (map fst [(''foo'', ''barAttr'')])"
    by simp
  have attr: "ac_getattr ?cls output_kwargs ''barAttr'' = Some (PInt 42)"
    by (simp add: demo_class_def output_kwargs_def)
  from outputs_written_and_saved [OF prep con ver run ups dist]
  obtain st' where s: "run_step demo_modules 0 output_step no_script_state = (Next, st')"
    and f: "meta_file st' = build_meta st'"
    and w: "\<forall>k v x. (k, v) \<in> set [(''foo'', ''barAttr'')] \<and>
                    ac_getattr ?cls output_kwargs v = Some x \<and> x \<noteq> PNone
               \<longrightarrow> build_meta st' k = Some x"
    by blast
  from w attr have "build_meta st' ''foo'' = Some (PInt 42)" by simp
  with s f show ?thesis by simp
qed

text \<open>
  C6, as the code has it. The claim says that the named output of every mapping is
  written. Here the step succeeds, its output \<^verbatim>\<open>barAttr\<close> is \<^verbatim>\<open>None\<close> and it
  has no attribute \<^verbatim>\<open>missingAttr\<close>: the key \<^verbatim>\<open>foo\<close> keeps its old value 1, in
  the store and in the saved snapshot, and the key \<^verbatim>\<open>baz\<close> is not written at all.
\<close>

theorem outputs_written_counterexample:
  "fst (run_step demo_modules 0 null_output_step seeded_state) = Next \<and>
   build_meta (snd (run_step demo_modules 0 null_output_step seeded_state)) ''foo'' = Some (PInt 1) \<and>
   build_meta (snd (run_step demo_modules 0 null_output_step seeded_state)) ''baz'' = None \<and>
   meta_file (snd (run_step demo_modules 0 null_output_step seeded_state)) ''foo'' = Some (PInt 1)"
  by (simp add: null_output_step_def seeded_state_def runner_defs string_defs demo_defs)

section \<open>Verification of the packaging action\<close>

text \<open>
  C4, as the code has it. The claim says that \<^verbatim>\<open>verify\<close> leaves the fields of the
  packaging action unchanged. With default arguments the build type is the empty
  string; \<^verbatim>\<open>verify\<close> answers no error and sets the build type to
  \<^verbatim>\<open>standalone\<close>.
\<close>

theorem package_verify_counterexample:
  "fst (Package_verify demo_env default_package_action plain_config []) = Inr [] \<and>
   build_type default_package_action = PStr [] \<and>
   build_type (fst (snd (Package_verify demo_env default_package_action plain_config []))) =
     PStr ''standalone''"
  by (simp add: Package_verify_def default_package_action_def Package_init_def kwarg_def
      valid_build_types_def demo_env_def)

text \<open>
  C4, amended. \<^verbatim>\<open>Package.verify\<close> calls \<^verbatim>\<open>config.check_environment()\<close> and
  assigns no field of the configuration itself: the configuration is left as that
  call leaves it. It changes no field of the instance other than the build type. When
  the check fails it answers the environment error, leaves the instance unchanged and
  prints nothing. When the check passes and the build type is not one of
  \<^verbatim>\<open>standalone\<close>, \<^verbatim>\<open>client\<close>, \<^verbatim>\<open>server\<close>, it prints one warning, sets
  the build type to \<^verbatim>\<open>standalone\<close> and answers no error, and does nothing else.
  Otherwise it answers no error, leaves the instance unchanged and prints nothing.
\<close>

theorem package_verify_effects:
  "Package_verify env p c h = (r, p', c', evs) \<Longrightarrow>
   c' = snd (check_environment env h c) \<and> p' = p\<lparr>build_type := build_type p'\<rparr> \<and>
   (if \<not> fst (check_environment env h c) then
      r = Inr ''Environment is not ready for building or packaging!'' \<and> p' = p \<and>
      evs = [CheckEnvironment]
    else if build_type p \<notin> set valid_build_types then
      r = Inr [] \<and> build_type p' = PStr ''standalone'' \<and>
      evs = [CheckEnvironment,
             PrintWarning (''Unrecognized build type ('' @ py_str env (build_type p)
               @ '') for package. Defaulting to '' @ dquote @ ''standalone'' @ dquote @ ''.''
               @ newline @ ''Valid types='' @ py_str env (PList valid_build_types))]
    else r = Inr [] \<and> p' = p \<and> evs = [CheckEnvironment])"
  by (auto simp: Package_verify_def split: prod.splits if_splits)

lemma verify_split:
  "Package_verify env p c h =
     (fst (Package_verify env p c h), fst (snd (Package_verify env p c h)),
      fst (snd (snd (Package_verify env p c h))), snd (snd (snd (Package_verify env p c h))))"
  by simp

theorem package_verify_effects_witness:
  "fst (snd (Package_verify demo_env default_package_action plain_config [])) =
     default_package_action\<lparr>build_type := PStr ''standalone''\<rparr> \<and>
   fst (snd (snd (Package_verify demo_env default_package_action plain_config []))) = plain_config \<and>
   snd (snd (snd (Package_verify demo_env default_package_action plain_config []))) =
     [CheckEnvironment,
      PrintWarning (''Unrecognized build type () for package. Defaulting to '' @ dquote
        @ ''standalone'' @ dquote @ ''.'' @ newline @ ''Valid types=?'')] \<and>
   Package_verify demo_env client_package_action plain_config [] =
     (Inr [], client_package_action, plain_config, [CheckEnvironment]) \<and>
   Package_verify failing_env default_package_action plain_config [] =
     (Inr ''Environment is not ready for building or packaging!'', default_package_action,
      plain_config, [CheckEnvironment])"
proof -
  have c: "check_environment demo_env [] plain_config = (True, plain_config)"
    by (simp add: demo_env_def)
  have cf: "check_environment failing_env [] plain_config = (False, plain_config)"
    by (simp add: failing_env_def)
  have b: "build_type default_package_action = PStr [] \<and>
           build_type default_package_action \<notin> set valid_build_types"
    by (simp add: default_package_action_def Package_init_def kwarg_def valid_build_types_def)
  have bc: "build_type client_package_action \<in> set valid_build_types"
    by (simp add: client_package_action_def Package_init_def kwarg_def valid_build_types_def)
  have s: "py_str demo_env (PStr []) = [] \<and> py_str demo_env (PList valid_build_types) = ''?''"
    by (simp add: demo_env_def)
  have one: "fst (snd (Package_verify demo_env default_package_action plain_config [])) =
       default_package_action\<lparr>build_type := PStr ''standalone''\<rparr> \<and>
     fst (snd (snd (Package_verify demo_env default_package_action plain_config []))) = plain_config \<and>
     snd (snd (snd (Package_verify demo_env default_package_action plain_config []))) =
       [CheckEnvironment,
        PrintWarning (''Unrecognized build type () for package. Defaulting to '' @ dquote
          @ ''standalone'' @ dquote @ ''.'' @ newline @ ''Valid types=?'')]"
    using package_verify_effects [OF verify_split, of demo_env default_package_action plain_config "[]"]
      c b s by (auto simp: )
  have two: "Package_verify demo_env client_package_action plain_config [] =
     (Inr [], client_package_action, plain_config, [CheckEnvironment])"
    using package_verify_effects [OF verify_split, of demo_env client_package_action plain_config "[]"]
      c bc by (metis (no_types, lifting) fst_conv snd_conv verify_split)
  have three: "Package_verify failing_env default_package_action plain_config [] =
     (Inr ''Environment is not ready for building or packaging!'', default_package_action,
      plain_config, [CheckEnvironment])"
    using package_verify_effects [OF verify_split, of failing_env default_package_action plain_config "[]"]
      cf by (metis (no_types, lifting) fst_conv snd_conv verify_split)
  from one two three show ?thesis by simp
qed


section \<open>The argument vector of the packaging action\<close>

text \<open>The map argument never looks like a stage flag.\<close>

lemma map_args_shape:
  "map_args v = Inr ma \<Longrightarrow> \<forall>x\<in>set ma. \<exists>y. x = ''-map='' @ y"
  by (cases v) (auto split: if_splits)

lemma cmd_args_flags:
  assumes "Package_cmd_args p c = Inr cmd"
  shows "(''-build'' \<in> set cmd \<longleftrightarrow> truthy (build p))"
    and "(''-cook'' \<in> set cmd \<longleftrightarrow> truthy (cook p))"
    and "(''-package'' \<in> set cmd \<longleftrightarrow> truthy (package p))"
    and "(''-stage'' \<in> set cmd \<longleftrightarrow> truthy (stage p))"
    and "(''-archive'' \<in> set cmd \<longleftrightarrow> truthy (archive p))"
    and "(''-clean'' \<in> set cmd \<longleftrightarrow> clean c \<or> truthy (full_rebuild p))"
    and "(''-iterate'' \<in> set cmd \<longleftrightarrow> \<not> (clean c \<or> truthy (full_rebuild p)))"
    and "(''-iterativecooking'' \<in> set cmd \<longleftrightarrow> \<not> (clean c \<or> truthy (full_rebuild p)))"
proof -
  from assms obtain ma where ma: "map_args (maps_arg p) = Inr ma"
    by (auto simp: Package_cmd_args_def split: sum.splits)
  from map_args_shape [OF ma] have m: "\<And>x. x \<in> set ma \<Longrightarrow> \<exists>y. x = ''-map='' @ y" by blast
  have cmd: "cmd = [''-ScriptsForProject='' @ uproject_file_path c,
           ''BuildCookRun'', ''-nocompileeditor'', ''-NoHotReload'', ''-nop4'',
           ''-project='' @ uproject_file_path c,
           ''-archivedirectory='' @ builds_path c,
           ''-clientconfig='' @ configuration c,
           ''-serverconfig='' @ configuration c,
           ''-ue4exe='' @ (if truthy (use_debug_editor_cmd p)
                          then ''UE4Editor-Win64-Debug-Cmd.exe'' else ''UE4Editor-Cmd.exe''),
           ''-prereqs'', ''-targetplatform=Win64'', ''-platform=Win64'',
           ''-servertargetplatform=Win64'', ''-serverplatform=Win64'',
           ''-CrashReporter'', ''-utf8output'']
          @ flag (truthy (build p)) [''-build'']
          @ flag (truthy (cook p)) [''-cook'']
          @ flag (truthy (package p)) [''-package'']
          @ flag (truthy (stage p)) [''-stage'']
          @ flag (truthy (archive p)) [''-archive'']
          @ (if build_type p = PStr ''client'' then [''-client'']
             else if build_type p = PStr ''server'' then [''-server'', ''-noclient'']
             else [])
          @ flag (truthy (nativize_assets p)) [''-nativizeAssets'']
          @ flag (truthy (pak_assets p) \<and> truthy (stage p)) [''-pak'']
          @ flag (truthy (compressed_assets p)) [''-compressed'']
          @ flag (truthy (no_debug_info p)) [''-nodebuginfo'']
          @ flag (truthy (no_editor_content p)) [''-SkipCookingEditorContent'']
          @ flag (truthy (ignore_cook_errors p)) [''-IgnoreCookErrors'']
          @ ma
          @ (if clean c \<or> truthy (full_rebuild p) then [''-clean'']
             else [''-iterate'', ''-iterativecooking''])
          @ [''-compile'']"
    using assms ma by (simp add: Package_cmd_args_def)
  have n1: "''-build'' \<notin> set ma" using m by fastforce
  have n2: "''-cook'' \<notin> set ma" using m by fastforce
  have n3: "''-package'' \<notin> set ma" using m by fastforce
  have n4: "''-stage'' \<notin> set ma" using m by fastforce
  have n5: "''-archive'' \<notin> set ma" using m by fastforce
  have n6: "''-clean'' \<notin> set ma" using m by fastforce
  have n7: "''-iterate'' \<notin> set ma" using m by fastforce
  have n8: "''-iterativecooking'' \<notin> set ma" using m by fastforce
  show "(''-build'' \<in> set cmd \<longleftrightarrow> truthy (build p))"
    unfolding cmd using n1 by (simp add: flag_def)
  show "(''-cook'' \<in> set cmd \<longleftrightarrow> truthy (cook p))"
    unfolding cmd using n2 by (simp add: flag_def)
  show "(''-package'' \<in> set cmd \<longleftrightarrow> truthy (package p))"
    unfolding cmd using n3 by (simp add: flag_def)
  show "(''-stage'' \<in> set cmd \<longleftrightarrow> truthy (stage p))"
    unfolding cmd using n4 by (simp add: flag_def)
  show "(''-archive'' \<in> set cmd \<longleftrightarrow> truthy (archive p))"
    unfolding cmd using n5 by (simp add: flag_def)
  show "(''-clean'' \<in> set cmd \<longleftrightarrow> clean c \<or> truthy (full_rebuild p))"
    unfolding cmd using n6 by (simp add: flag_def)
  show "(''-iterate'' \<in> set cmd \<longleftrightarrow> \<not> (clean c \<or> truthy (full_rebuild p)))"
    unfolding cmd using n7 by (simp add: flag_def)
  show "(''-iterativecooking'' \<in> set cmd \<longleftrightarrow> \<not> (clean c \<or> truthy (full_rebuild p)))"
    unfolding cmd using n8 by (simp add: flag_def)
qed


lemma verify_keeps_toggles:
  "Package_verify env p c h = (r, p1, c1, ev1) \<Longrightarrow>
   c1 = snd (check_environment env h c) \<and> (\<forall>x ys. Launch x ys \<notin> set ev1) \<and>
   build p1 = build p \<and> cook p1 = cook p \<and> package p1 = package p \<and>
   stage p1 = stage p \<and> archive p1 = archive p \<and> full_rebuild p1 = full_rebuild p"
  by (auto simp: Package_verify_def split: prod.splits if_splits)

lemma clean_events_no_launch: "Launch x ys \<notin> set (clean_events env p c)"
  by (simp add: clean_events_def)

lemma blacklist_setup_no_launch:
  "blacklist_setup env p c h = (e, ev) \<Longrightarrow> Launch x ys \<notin> set ev"
  by (auto simp: blacklist_setup_def Let_def split: if_splits option.splits)

lemma launch_package_args:
  "launch_package env p c h cmd = (r, p3, c3, ev) \<Longrightarrow> Launch x ys \<in> set ev \<Longrightarrow> ys = cmd"
  by (auto simp: launch_package_def Let_def split: if_splits)

lemma launch_package_config:
  "launch_package env p c h cmd = (r, p3, c3, ev) \<Longrightarrow> c3 = c"
  by (auto simp: launch_package_def Let_def split: if_splits)

lemma Package_run_launch:
  assumes run: "Package_run env p c h = (r, p', c', evs)"
    and l: "Launch exe cmd \<in> set evs"
  shows "c' = snd (check_environment env h c) \<and>
         (\<exists>p2. Package_cmd_args p2 c' = Inr cmd \<and>
           build p2 = build p \<and> cook p2 = cook p \<and> package p2 = package p \<and>
           stage p2 = stage p \<and> archive p2 = archive p \<and> full_rebuild p2 = full_rebuild p)"
proof -
  obtain rv p1 c1 ev1 where ver: "Package_verify env p c h = (rv, p1, c1, ev1)"
    by (metis prod_cases4)
  from verify_keeps_toggles [OF ver]
  have c1: "c1 = snd (check_environment env h c)" and nl1: "\<And>x ys. Launch x ys \<notin> set ev1"
    and tog: "build p1 = build p" "cook p1 = cook p" "package p1 = package p"
      "stage p1 = stage p" "archive p1 = archive p" "full_rebuild p1 = full_rebuild p"
    by auto
  from ver obtain verr where rv: "rv = Inr verr"
    by (auto simp: Package_verify_def split: prod.splits if_splits)
  let ?p2 = "p1\<lparr>error := verr\<rparr>"
  let ?ev2 = "ev1 @ [Echo (''Building for client version '' @ version_str c1)]
                  @ clean_events env ?p2 c1
                  @ [PrintAction (''Building '' @ title (uproject_name c1) @ '' Build'')]"
  have nl2: "Launch exe cmd \<notin> set ?ev2"
    using nl1 clean_events_no_launch by simp
  show ?thesis
  proof (cases "verr \<noteq> []")
    case True
    with run ver rv have "evs = ev1" by (simp add: Package_run_def)
    with l nl1 show ?thesis by simp
  next
    case False
    obtain e ev3 where bl: "blacklist_setup env ?p2 c1 (h @ ?ev2) = (e, ev3)"
      by (cases "blacklist_setup env ?p2 c1 (h @ ?ev2)")
    from blacklist_setup_no_launch [OF bl] have nl3: "Launch exe cmd \<notin> set ev3" .
    show ?thesis
    proof (cases e)
      case (Some err)
      with run ver rv False bl have "evs = ?ev2 @ ev3"
        by (auto simp: Package_run_def Let_def)
      with l nl2 nl3 show ?thesis by simp
    next
      case None
      show ?thesis
      proof (cases "Package_cmd_args ?p2 c1")
        case (Inl err)
        with run ver rv False bl None have "evs = ?ev2 @ ev3"
          by (auto simp: Package_run_def Let_def)
        with l nl2 nl3 show ?thesis by simp
      next
        case (Inr args)
        obtain r4 p4 c4 ev4 where lp: "launch_package env ?p2 c1 (h @ ?ev2 @ ev3) args = (r4, p4, c4, ev4)"
          by (metis prod_cases4)
        with run ver rv False bl None Inr have ev: "evs = ?ev2 @ ev3 @ ev4" and c4: "c' = c4"
          by (auto simp: Package_run_def Let_def)
        from launch_package_config [OF lp] c4 have c': "c' = c1" by simp
        from ev l nl2 nl3 have "Launch exe cmd \<in> set ev4" by auto
        from launch_package_args [OF lp this] have "cmd = args" .
        with Inr tog c' c1 show ?thesis
          by (intro conjI exI [of _ ?p2]) simp_all
      qed
    qed
  qed
qed

text \<open>
  C9. Whenever \<^verbatim>\<open>Package.run\<close> launches the external process, the argument vector
  holds \<^verbatim>\<open>-build\<close>, \<^verbatim>\<open>-cook\<close>, \<^verbatim>\<open>-package\<close>, \<^verbatim>\<open>-stage\<close> and
  \<^verbatim>\<open>-archive\<close> exactly when the toggle of that name is true; it holds
  \<^verbatim>\<open>-clean\<close> exactly when the configuration cleans or \<^verbatim>\<open>full_rebuild\<close> is
  true, and \<^verbatim>\<open>-iterate\<close> and \<^verbatim>\<open>-iterativecooking\<close> exactly when it does not
  hold \<^verbatim>\<open>-clean\<close>. The configuration is the one the action holds when the vector
  is put together, which is the one \<^verbatim>\<open>config.check_environment()\<close> has left and
  the one the run ends with.
\<close>

theorem package_stage_flags:
  "Package_run env p c h = (r, p', c', evs) \<Longrightarrow> Launch exe cmd \<in> set evs \<Longrightarrow>
   c' = snd (check_environment env h c) \<and>
   (''-build'' \<in> set cmd \<longleftrightarrow> truthy (build p)) \<and>
   (''-cook'' \<in> set cmd \<longleftrightarrow> truthy (cook p)) \<and>
   (''-package'' \<in> set cmd \<longleftrightarrow> truthy (package p)) \<and>
   (''-stage'' \<in> set cmd \<longleftrightarrow> truthy (stage p)) \<and>
   (''-archive'' \<in> set cmd \<longleftrightarrow> truthy (archive p)) \<and>
   (''-clean'' \<in> set cmd \<longleftrightarrow> clean c' \<or> truthy (full_rebuild p)) \<and>
   (''-iterate'' \<in> set cmd \<longleftrightarrow> \<not> (clean c' \<or> truthy (full_rebuild p))) \<and>
   (''-iterativecooking'' \<in> set cmd \<longleftrightarrow> \<not> (clean c' \<or> truthy (full_rebuild p)))"
proof -
  assume run: "Package_run env p c h = (r, p', c', evs)" and l: "Launch exe cmd \<in> set evs"
  from Package_run_launch [OF run l] obtain p2 where
    c': "c' = snd (check_environment env h c)"
    and args: "Package_cmd_args p2 c' = Inr cmd"
    and tog: "build p2 = build p" "cook p2 = cook p" "package p2 = package p"
      "stage p2 = stage p" "archive p2 = archive p" "full_rebuild p2 = full_rebuild p"
    by blast
  from cmd_args_flags [OF args] tog c' show ?thesis by simp
qed

theorem package_stage_flags_witness:
  "Launch ''C:/UE4/RunUAT.bat'' toggled_cmd_args
     \<in> set (snd (snd (snd (Package_run demo_env toggled_package_action plain_config [])))) \<and>
   fst (snd (snd (Package_run demo_env toggled_package_action plain_config []))) = plain_config \<and>
   clean plain_config = False \<and>
   truthy (build toggled_package_action) = False \<and>
   truthy (cook toggled_package_action) = True \<and>
   truthy (full_rebuild toggled_package_action) = True \<and>
   ''-build'' \<notin> set toggled_cmd_args \<and> ''-cook'' \<in> set toggled_cmd_args \<and>
   ''-clean'' \<in> set toggled_cmd_args \<and> ''-iterate'' \<notin> set toggled_cmd_args"
proof -
  have e: "Package_run demo_env toggled_package_action plain_config [] =
      (fst (Package_run demo_env toggled_package_action plain_config []),
       fst (snd (Package_run demo_env toggled_package_action plain_config [])),
       fst (snd (snd (Package_run demo_env toggled_package_action plain_config []))),
       snd (snd (snd (Package_run demo_env toggled_package_action plain_config []))))"
    by simp
  have l: "Launch ''C:/UE4/RunUAT.bat'' toggled_cmd_args
     \<in> set (snd (snd (snd (Package_run demo_env toggled_package_action plain_config []))))"
    by (simp add: Package_run_def Package_verify_def Package_cmd_args_def launch_package_def
        blacklist_setup_def clean_events_def build_blacklist_file_path_def flag_def
        toggled_package_action_def Package_init_def kwarg_def valid_build_types_def
        plain_config_def demo_config_def demo_env_def toggled_cmd_args_def Let_def)
  have t: "truthy (build toggled_package_action) = False \<and>
           truthy (cook toggled_package_action) = True \<and>
           truthy (full_rebuild toggled_package_action) = True"
    by (simp add: toggled_package_action_def Package_init_def kwarg_def)
  have c: "snd (check_environment demo_env [] plain_config) = plain_config \<and> clean plain_config = False"
    by (simp add: demo_env_def plain_config_def demo_config_def)
  from package_stage_flags [OF e l] t l c show ?thesis by simp
qed

end
